theory Spec2Isabelle
  imports Main "HOL-Library.Word"
begin

section \<open>Data model\<close>

text \<open>
  A Go \<open>map[string]string\<close> of labels is an association list; its order is the order in
  which \<open>range\<close> visits the map, which Go leaves unspecified. Lookup \<open>m[k]\<close> of a missing
  key gives the empty string.
\<close>

type_synonym labels = "(string \<times> string) list"

text \<open>A Go \<open>error\<close> value, with its message.\<close>

datatype error = Error string

definition lookup :: "labels \<Rightarrow> string \<Rightarrow> string" where
  "lookup m k = (case map_of m k of None \<Rightarrow> [] | Some v \<Rightarrow> v)"

text \<open>
  Modelled from the spec: the package \<open>internal\<close> is not among the sources.
  \<open>internal.IP\<close> is a reported address with its address-family tag, and
  \<open>internal.Service\<close> is the workload: numeric id (the \<open>uint64\<close> machine id), name, label
  mapping and list of reported addresses. These are the fields the provider reads.
\<close>

record IP =
  Address :: string
  AddressType :: string

record internal_Service =
  ID :: "64 word"
  Name :: string
  Config :: labels
  IPs :: "IP list"

text \<open>
  Modelled from the spec: the package \<open>dynamic\<close> is not among the sources. Its routers,
  services, load balancers and servers are records of the fields the synthesizers read and
  write. A pointer field (\<open>*int\<close>, \<open>*bool\<close>, \<open>*ServersLoadBalancer\<close>) is an option, \<open>nil\<close>
  being \<open>None\<close>. A map of pointers to structs is a partial map to the struct: every entry
  is allocated on its own, so no two keys alias; a missing key reads as \<open>nil\<close>, and an
  entry holding \<open>nil\<close> is not told apart from a missing one. The middlewares are never
  looked into.
\<close>

record Server =
  URL :: string
  Scheme :: string
  Port :: string

record ServersLoadBalancer =
  PassHostHeader :: "bool option"
  Servers :: "Server list"

record dynamic_Service =
  LoadBalancer :: "ServersLoadBalancer option"

record Router =
  Service :: string
  Rule :: string
  Priority :: "int option"

typedecl Middleware

record HTTPConfiguration =
  Routers :: "string \<rightharpoonup> Router"
  Services :: "string \<rightharpoonup> dynamic_Service"
  Middlewares :: "string \<rightharpoonup> Middleware"

record TCPServer =
  TCP_Address :: string
  TCP_Port :: string

record TCPServersLoadBalancer =
  TCP_Servers :: "TCPServer list"

record TCPService =
  TCP_LoadBalancer :: "TCPServersLoadBalancer option"

record TCPRouter =
  TCP_Service :: string
  TCP_Rule :: string
  TCP_Priority :: "int option"

record TCPConfiguration =
  TCP_Routers :: "string \<rightharpoonup> TCPRouter"
  TCP_Services :: "string \<rightharpoonup> TCPService"

record UDPServer =
  UDP_Address :: string
  UDP_Port :: string

record UDPServersLoadBalancer =
  UDP_Servers :: "UDPServer list"

record UDPService =
  UDP_LoadBalancer :: "UDPServersLoadBalancer option"

record UDPRouter =
  UDP_Service :: string

record UDPConfiguration =
  UDP_Routers :: "string \<rightharpoonup> UDPRouter"
  UDP_Services :: "string \<rightharpoonup> UDPService"

record Configuration =
  HTTP :: HTTPConfiguration
  TCP :: TCPConfiguration
  UDP :: UDPConfiguration

section \<open>Strings\<close>

text \<open>\<open>%d\<close> of an unsigned integer: its decimal digits, no sign, no padding.\<close>

definition digit :: "nat \<Rightarrow> char" where
  "digit n = ''0123456789'' ! (n mod 10)"

fun decimal :: "nat \<Rightarrow> string" where
  "decimal n = (if n < 10 then [digit n] else decimal (n div 10) @ [digit n])"

declare decimal.simps [simp del]

text \<open>\<open>strings.HasPrefix\<close>, and \<open>strings.Split\<close> for a separator of one byte.\<close>

definition HasPrefix :: "string \<Rightarrow> string \<Rightarrow> bool" where
  "HasPrefix s p = (length p \<le> length s \<and> take (length p) s = p)"

fun Split :: "string \<Rightarrow> char \<Rightarrow> string list" where
  "Split [] sep = [[]]"
| "Split (c # cs) sep =
     (if c = sep then [] # Split cs sep
      else (case Split cs sep of [] \<Rightarrow> [[c]] | p # ps \<Rightarrow> (c # p) # ps))"

section \<open>Element discovery\<close>

text \<open>
  \<open>keys\<close> is a \<open>map[string]struct{}\<close>, a set: a list without repetition, a key stored
  twice being stored once. \<open>getDefinedElements\<close> then ranges over \<open>keys\<close>; the model visits
  it in insertion order, where Go fixes no order.
\<close>

definition store_key :: "string \<Rightarrow> string list \<Rightarrow> string list" where
  "store_key k keys = (if k \<in> set keys then keys else keys @ [k])"

definition element_prefix :: "string \<Rightarrow> string \<Rightarrow> string" where
  "element_prefix proto elemType = ''traefik.'' @ proto @ ''.'' @ elemType @ ''.''"

fun collect_keys :: "string \<Rightarrow> labels \<Rightarrow> string list \<Rightarrow> string list" where
  "collect_keys prefix [] keys = keys"
| "collect_keys prefix ((k, v) # rest) keys =
     (if HasPrefix k prefix then
        (let parts = Split (drop (length prefix) k) (CHR ''.'') in
         if length parts > 0 then collect_keys prefix rest (store_key (parts ! 0) keys)
         else collect_keys prefix rest keys)
      else collect_keys prefix rest keys)"

definition getDefinedElements :: "labels \<Rightarrow> string \<Rightarrow> string \<Rightarrow> string list" where
  "getDefinedElements lbls proto elemType =
     collect_keys (element_prefix proto elemType) lbls []"

section \<open>Address resolution\<close>

fun first_valid_ip :: "IP list \<Rightarrow> string option" where
  "first_valid_ip [] = None"
| "first_valid_ip (ip # rest) =
     (if Address ip \<noteq> [] \<and> Address ip \<noteq> ''127.0.0.1'' then Some (Address ip)
      else first_valid_ip rest)"

definition getServiceIP :: "internal_Service \<Rightarrow> string \<Rightarrow> string" where
  "getServiceIP service nodeName =
     (case first_valid_ip (IPs service) of
        Some a \<Rightarrow> a
      | None \<Rightarrow> Name service @ ''.'' @ nodeName)"

definition buildServerURL :: "internal_Service \<Rightarrow> Server \<Rightarrow> string \<Rightarrow> string" where
  "buildServerURL service server nodeName =
     (let scheme = ''http'';
          port = ''80'';
          (scheme, port) =
            (if Scheme server = ''https'' then (''https'', ''443'') else (scheme, port));
          port = (if Port server \<noteq> [] then Port server else port);
          ip = getServiceIP service nodeName
      in scheme @ ''://'' @ ip @ '':'' @ port)"

definition buildStreamServerAddress :: "internal_Service \<Rightarrow> string \<Rightarrow> string \<Rightarrow> string" where
  "buildStreamServerAddress service nodeName port =
     (let ip = getServiceIP service nodeName in ip @ '':'' @ port)"

section \<open>Protocol default synthesizers\<close>

text \<open>
  Each synthesizer mutates the configuration it is handed; the model returns the updated
  configuration. The \<open>log.Printf\<close> calls change no result and are left out.
\<close>

definition defaultID :: "internal_Service \<Rightarrow> string" where
  "defaultID service = Name service @ ''-'' @ decimal (unat (ID service))"

subsection \<open>HTTP\<close>

definition http_enrich_router :: "string list \<Rightarrow> internal_Service \<Rightarrow> Router \<Rightarrow> Router" where
  "http_enrich_router definedServices service router =
     (let router = (if Service router = [] \<and> length definedServices > 0
                    then router\<lparr>Service := definedServices ! 0\<rparr> else router);
          router = (if Rule router = []
                    then router\<lparr>Rule := ''Host(`'' @ Name service @ ''`)''\<rparr> else router);
          router = (if Priority router = None
                    then router\<lparr>Priority := Some 1\<rparr> else router)
      in router)"

fun http_routers_loop ::
  "string list \<Rightarrow> string list \<Rightarrow> internal_Service \<Rightarrow> HTTPConfiguration \<Rightarrow> HTTPConfiguration" where
  "http_routers_loop [] definedServices service httpConfig = httpConfig"
| "http_routers_loop (routerName # rest) definedServices service httpConfig =
     (case Routers httpConfig routerName of
        None \<Rightarrow> http_routers_loop rest definedServices service httpConfig
      | Some router \<Rightarrow>
          http_routers_loop rest definedServices service
            (httpConfig\<lparr>Routers := (Routers httpConfig)
               (routerName \<mapsto> http_enrich_router definedServices service router)\<rparr>))"

definition http_enrich_server :: "internal_Service \<Rightarrow> string \<Rightarrow> Server \<Rightarrow> Server" where
  "http_enrich_server service nodeName server =
     (if URL server = [] then server\<lparr>URL := buildServerURL service server nodeName\<rparr>
      else server)"

definition http_enrich_service ::
  "internal_Service \<Rightarrow> string \<Rightarrow> dynamic_Service \<Rightarrow> dynamic_Service" where
  "http_enrich_service service nodeName configService =
     (let lb = (case LoadBalancer configService of
                  None \<Rightarrow> \<lparr>PassHostHeader = None, Servers = []\<rparr>
                | Some lb \<Rightarrow> lb);
          lb = (if PassHostHeader lb = None then lb\<lparr>PassHostHeader := Some True\<rparr> else lb);
          lb = (if length (Servers lb) = 0
                then lb\<lparr>Servers := [\<lparr>URL = [], Scheme = [], Port = []\<rparr>]\<rparr> else lb);
          lb = lb\<lparr>Servers := map (http_enrich_server service nodeName) (Servers lb)\<rparr>
      in configService\<lparr>LoadBalancer := Some lb\<rparr>)"

fun http_services_loop ::
  "string list \<Rightarrow> internal_Service \<Rightarrow> string \<Rightarrow> HTTPConfiguration \<Rightarrow> HTTPConfiguration" where
  "http_services_loop [] service nodeName httpConfig = httpConfig"
| "http_services_loop (serviceName # rest) service nodeName httpConfig =
     (case Services httpConfig serviceName of
        None \<Rightarrow> http_services_loop rest service nodeName httpConfig
      | Some configService \<Rightarrow>
          http_services_loop rest service nodeName
            (httpConfig\<lparr>Services := (Services httpConfig)
               (serviceName \<mapsto> http_enrich_service service nodeName configService)\<rparr>))"

definition buildHTTPConfiguration ::
  "HTTPConfiguration \<Rightarrow> internal_Service \<Rightarrow> string \<Rightarrow> HTTPConfiguration" where
  "buildHTTPConfiguration httpConfig service nodeName =
     (let definedRouters = getDefinedElements (Config service) ''http'' ''routers'';
          definedServices = getDefinedElements (Config service) ''http'' ''services'';
          (httpConfig, definedRouters) =
            (if length definedRouters = 0
             then (httpConfig\<lparr>Routers := (Routers httpConfig)
                     (defaultID service \<mapsto> \<lparr>Service = [], Rule = [], Priority = None\<rparr>)\<rparr>,
                   definedRouters @ [defaultID service])
             else (httpConfig, definedRouters));
          (httpConfig, definedServices) =
            (if length definedServices = 0
             then (httpConfig\<lparr>Services := (Services httpConfig)
                     (defaultID service \<mapsto> \<lparr>LoadBalancer = None\<rparr>)\<rparr>,
                   definedServices @ [defaultID service])
             else (httpConfig, definedServices));
          httpConfig = http_routers_loop definedRouters definedServices service httpConfig;
          httpConfig = http_services_loop definedServices service nodeName httpConfig
      in httpConfig)"

subsection \<open>TCP\<close>

definition tcp_enrich_router :: "string list \<Rightarrow> TCPRouter \<Rightarrow> TCPRouter" where
  "tcp_enrich_router definedServices router =
     (let router = (if TCP_Service router = [] \<and> length definedServices > 0
                    then router\<lparr>TCP_Service := definedServices ! 0\<rparr> else router);
          router = (if TCP_Priority router = None
                    then router\<lparr>TCP_Priority := Some 1\<rparr> else router);
          router = (if TCP_Rule router = []
                    then router\<lparr>TCP_Rule := ''HostSNI(`*`)''\<rparr> else router)
      in router)"

fun tcp_routers_loop ::
  "string list \<Rightarrow> string list \<Rightarrow> TCPConfiguration \<Rightarrow> TCPConfiguration" where
  "tcp_routers_loop [] definedServices tcpConfig = tcpConfig"
| "tcp_routers_loop (routerName # rest) definedServices tcpConfig =
     (case TCP_Routers tcpConfig routerName of
        None \<Rightarrow> tcp_routers_loop rest definedServices tcpConfig
      | Some router \<Rightarrow>
          tcp_routers_loop rest definedServices
            (tcpConfig\<lparr>TCP_Routers := (TCP_Routers tcpConfig)
               (routerName \<mapsto> tcp_enrich_router definedServices router)\<rparr>))"

definition tcp_enrich_server :: "internal_Service \<Rightarrow> string \<Rightarrow> TCPServer \<Rightarrow> TCPServer" where
  "tcp_enrich_server service nodeName server =
     (if TCP_Address server = [] then
        (if TCP_Port server = [] then server
         else server\<lparr>TCP_Address := buildStreamServerAddress service nodeName (TCP_Port server)\<rparr>)
      else server)"

definition tcp_enrich_service :: "internal_Service \<Rightarrow> string \<Rightarrow> TCPService \<Rightarrow> TCPService" where
  "tcp_enrich_service service nodeName configService =
     (let lb = (case TCP_LoadBalancer configService of
                  None \<Rightarrow> \<lparr>TCP_Servers = []\<rparr>
                | Some lb \<Rightarrow> lb);
          lb = (if length (TCP_Servers lb) = 0
                then lb\<lparr>TCP_Servers := [\<lparr>TCP_Address = [], TCP_Port = []\<rparr>]\<rparr> else lb);
          lb = lb\<lparr>TCP_Servers := map (tcp_enrich_server service nodeName) (TCP_Servers lb)\<rparr>
      in configService\<lparr>TCP_LoadBalancer := Some lb\<rparr>)"

fun tcp_services_loop ::
  "string list \<Rightarrow> internal_Service \<Rightarrow> string \<Rightarrow> TCPConfiguration \<Rightarrow> TCPConfiguration" where
  "tcp_services_loop [] service nodeName tcpConfig = tcpConfig"
| "tcp_services_loop (serviceName # rest) service nodeName tcpConfig =
     (case TCP_Services tcpConfig serviceName of
        None \<Rightarrow> tcp_services_loop rest service nodeName tcpConfig
      | Some configService \<Rightarrow>
          tcp_services_loop rest service nodeName
            (tcpConfig\<lparr>TCP_Services := (TCP_Services tcpConfig)
               (serviceName \<mapsto> tcp_enrich_service service nodeName configService)\<rparr>))"

definition buildTCPConfiguration ::
  "TCPConfiguration \<Rightarrow> internal_Service \<Rightarrow> string \<Rightarrow> TCPConfiguration" where
  "buildTCPConfiguration tcpConfig service nodeName =
     (let definedRouters = getDefinedElements (Config service) ''tcp'' ''routers'';
          definedServices = getDefinedElements (Config service) ''tcp'' ''services'';
          (tcpConfig, definedServices) =
            (if length definedRouters > 0 \<and> length definedServices = 0
             then (tcpConfig\<lparr>TCP_Services := (TCP_Services tcpConfig)
                     (defaultID service \<mapsto> \<lparr>TCP_LoadBalancer = None\<rparr>)\<rparr>,
                   definedServices @ [defaultID service])
             else (tcpConfig, definedServices));
          tcpConfig = tcp_routers_loop definedRouters definedServices tcpConfig;
          tcpConfig = tcp_services_loop definedServices service nodeName tcpConfig
      in tcpConfig)"

subsection \<open>UDP\<close>

definition udp_enrich_router :: "string list \<Rightarrow> UDPRouter \<Rightarrow> UDPRouter" where
  "udp_enrich_router definedServices router =
     (if UDP_Service router = [] \<and> length definedServices > 0
      then router\<lparr>UDP_Service := definedServices ! 0\<rparr> else router)"

fun udp_routers_loop ::
  "string list \<Rightarrow> string list \<Rightarrow> UDPConfiguration \<Rightarrow> UDPConfiguration" where
  "udp_routers_loop [] definedServices udpConfig = udpConfig"
| "udp_routers_loop (routerName # rest) definedServices udpConfig =
     (case UDP_Routers udpConfig routerName of
        None \<Rightarrow> udp_routers_loop rest definedServices udpConfig
      | Some router \<Rightarrow>
          udp_routers_loop rest definedServices
            (udpConfig\<lparr>UDP_Routers := (UDP_Routers udpConfig)
               (routerName \<mapsto> udp_enrich_router definedServices router)\<rparr>))"

definition udp_enrich_server :: "internal_Service \<Rightarrow> string \<Rightarrow> UDPServer \<Rightarrow> UDPServer" where
  "udp_enrich_server service nodeName server =
     (if UDP_Address server = [] then
        (if UDP_Port server = [] then server
         else server\<lparr>UDP_Address := buildStreamServerAddress service nodeName (UDP_Port server)\<rparr>)
      else server)"

definition udp_enrich_service :: "internal_Service \<Rightarrow> string \<Rightarrow> UDPService \<Rightarrow> UDPService" where
  "udp_enrich_service service nodeName configService =
     (let lb = (case UDP_LoadBalancer configService of
                  None \<Rightarrow> \<lparr>UDP_Servers = []\<rparr>
                | Some lb \<Rightarrow> lb);
          lb = (if length (UDP_Servers lb) = 0
                then lb\<lparr>UDP_Servers := [\<lparr>UDP_Address = [], UDP_Port = []\<rparr>]\<rparr> else lb);
          lb = lb\<lparr>UDP_Servers := map (udp_enrich_server service nodeName) (UDP_Servers lb)\<rparr>
      in configService\<lparr>UDP_LoadBalancer := Some lb\<rparr>)"

fun udp_services_loop ::
  "string list \<Rightarrow> internal_Service \<Rightarrow> string \<Rightarrow> UDPConfiguration \<Rightarrow> UDPConfiguration" where
  "udp_services_loop [] service nodeName udpConfig = udpConfig"
| "udp_services_loop (serviceName # rest) service nodeName udpConfig =
     (case UDP_Services udpConfig serviceName of
        None \<Rightarrow> udp_services_loop rest service nodeName udpConfig
      | Some configService \<Rightarrow>
          udp_services_loop rest service nodeName
            (udpConfig\<lparr>UDP_Services := (UDP_Services udpConfig)
               (serviceName \<mapsto> udp_enrich_service service nodeName configService)\<rparr>))"

definition buildUDPConfiguration ::
  "UDPConfiguration \<Rightarrow> internal_Service \<Rightarrow> string \<Rightarrow> UDPConfiguration" where
  "buildUDPConfiguration udpConfig service nodeName =
     (let definedRouters = getDefinedElements (Config service) ''udp'' ''routers'';
          definedServices = getDefinedElements (Config service) ''udp'' ''services'';
          (udpConfig, definedServices) =
            (if length definedRouters > 0 \<and> length definedServices = 0
             then (udpConfig\<lparr>UDP_Services := (UDP_Services udpConfig)
                     (defaultID service \<mapsto> \<lparr>UDP_LoadBalancer = None\<rparr>)\<rparr>,
                   definedServices @ [defaultID service])
             else (udpConfig, definedServices));
          udpConfig = udp_routers_loop definedRouters definedServices udpConfig;
          udpConfig = udp_services_loop definedServices service nodeName udpConfig
      in udpConfig)"

section \<open>Configuration assembler\<close>

text \<open>
  \<open>parser.Decode\<close> belongs to an external library and is a parameter: called with the
  labels and the shared configuration, it gives back the configuration as it has left it
  and its error, if any.
\<close>

type_synonym decoder = "labels \<Rightarrow> Configuration \<Rightarrow> Configuration \<times> error option"

definition new_Configuration :: Configuration where
  "new_Configuration =
     \<lparr>HTTP = \<lparr>Routers = Map.empty, Services = Map.empty, Middlewares = Map.empty\<rparr>,
      TCP = \<lparr>TCP_Routers = Map.empty, TCP_Services = Map.empty\<rparr>,
      UDP = \<lparr>UDP_Routers = Map.empty, UDP_Services = Map.empty\<rparr>\<rparr>"

definition build_all :: "Configuration \<Rightarrow> internal_Service \<Rightarrow> string \<Rightarrow> Configuration" where
  "build_all config service nodeName =
     (let config = config\<lparr>HTTP := buildHTTPConfiguration (HTTP config) service nodeName\<rparr>;
          config = config\<lparr>TCP := buildTCPConfiguration (TCP config) service nodeName\<rparr>;
          config = config\<lparr>UDP := buildUDPConfiguration (UDP config) service nodeName\<rparr>
      in config)"

fun services_loop ::
  "decoder \<Rightarrow> string \<Rightarrow> internal_Service list \<Rightarrow> Configuration \<Rightarrow> Configuration" where
  "services_loop Decode nodeName [] config = config"
| "services_loop Decode nodeName (service # rest) config =
     (case Decode (Config service) config of
        (config, Some err) \<Rightarrow> services_loop Decode nodeName rest config
      | (config, None) \<Rightarrow>
          services_loop Decode nodeName rest (build_all config service nodeName))"

fun nodes_loop ::
  "decoder \<Rightarrow> (string \<times> internal_Service list) list \<Rightarrow> Configuration \<Rightarrow> Configuration" where
  "nodes_loop Decode [] config = config"
| "nodes_loop Decode ((nodeName, services) # rest) config =
     nodes_loop Decode rest (services_loop Decode nodeName services config)"

definition generateConfiguration ::
  "decoder \<Rightarrow> (string \<times> internal_Service list) list \<Rightarrow> Configuration" where
  "generateConfiguration Decode servicesMap = nodes_loop Decode servicesMap new_Configuration"

section \<open>Workload discovery\<close>

text \<open>
  Modelled from the spec: \<open>internal.ProxmoxClient\<close> is not among the sources. The cluster
  client is a parameter: a record of what the cluster answers to each call
  during one scan. A listed virtual machine or container has an id, a name and a status. \<open>GetVMConfig\<close> and \<open>GetContainerConfig\<close> give the label mapping that
  \<open>GetTraefikMap\<close> reads off the answer, the two network-interface calls the list that
  \<open>GetIPs\<close> reads off it.
\<close>

record VirtualMachine =
  VM_VMID :: "64 word"
  VM_Name :: string
  VM_Status :: string

record Container =
  CT_VMID :: "64 word"
  CT_Name :: string
  CT_Status :: string

record ProxmoxClient =
  GetVirtualMachines :: "string \<Rightarrow> error + VirtualMachine list"
  GetVMConfig :: "string \<Rightarrow> 64 word \<Rightarrow> error + labels"
  GetVMNetworkInterfaces :: "string \<Rightarrow> 64 word \<Rightarrow> error + IP list"
  GetContainers :: "string \<Rightarrow> error + Container list"
  GetContainerConfig :: "string \<Rightarrow> 64 word \<Rightarrow> error + labels"
  GetContainerNetworkInterfaces :: "string \<Rightarrow> 64 word \<Rightarrow> error + IP list"

text \<open>\<open>fmt.Errorf\<close> with \<open>%w\<close>: the message, then the message of the wrapped error.\<close>

fun Errorf :: "string \<Rightarrow> error \<Rightarrow> error" where
  "Errorf msg (Error e) = Error (msg @ e)"

text \<open>
  Modelled from the spec: \<open>internal.NewService\<close> is not among the sources. A workload is
  made of its numeric id, its name and its label mapping; its list of reported addresses
  is filled in afterwards, so the constructor leaves it empty.
\<close>

definition NewService :: "64 word \<Rightarrow> string \<Rightarrow> labels \<Rightarrow> internal_Service" where
  "NewService vmid name config = \<lparr>ID = vmid, Name = name, Config = config, IPs = []\<rparr>"

definition getIPsOfService ::
  "ProxmoxClient \<Rightarrow> string \<Rightarrow> 64 word \<Rightarrow> bool \<Rightarrow> error + IP list" where
  "getIPsOfService client nodeName vmID isContainer =
     (case (if isContainer
            then (case GetContainerNetworkInterfaces client nodeName vmID of
                    Inl err \<Rightarrow> Inl (Errorf ''error getting container network interfaces: '' err)
                  | Inr rawIPs \<Rightarrow> Inr rawIPs)
            else (case GetVMNetworkInterfaces client nodeName vmID of
                    Inl err \<Rightarrow> Inl (Errorf ''error getting VM network interfaces: '' err)
                  | Inr rawIPs \<Rightarrow> Inr rawIPs)) of
        Inl err \<Rightarrow> Inl err
      | Inr rawIPs \<Rightarrow>
          Inr (filter (\<lambda>ip. (AddressType ip = ''ipv4'' \<or> AddressType ip = ''inet'')
                            \<and> Address ip \<noteq> ''127.0.0.1'') rawIPs))"

text \<open>
  The loop over the virtual machines. It compares \<open>configMap["traefik.enable"]\<close> with
  \<open>"true"\<close> and logs when they differ, and goes on with the same machine: the branch
  holds no \<open>continue\<close>, so both of its arms are the same here.
\<close>

fun scan_vms ::
  "ProxmoxClient \<Rightarrow> string \<Rightarrow> VirtualMachine list \<Rightarrow> internal_Service list
    \<Rightarrow> internal_Service list" where
  "scan_vms client nodeName [] services = services"
| "scan_vms client nodeName (vm # rest) services =
     (if VM_Status vm = ''running'' then
        (case GetVMConfig client nodeName (VM_VMID vm) of
           Inl err \<Rightarrow> scan_vms client nodeName rest services
         | Inr configMap \<Rightarrow>
             (let service = NewService (VM_VMID vm) (VM_Name vm) configMap;
                  service = (case getIPsOfService client nodeName (VM_VMID vm) False of
                               Inr ips \<Rightarrow> service\<lparr>IPs := ips\<rparr>
                             | Inl err \<Rightarrow> service)
              in scan_vms client nodeName rest (services @ [service])))
      else scan_vms client nodeName rest services)"

text \<open>The loop over the containers, where the same comparison ends in \<open>continue\<close>.\<close>

fun scan_cts ::
  "ProxmoxClient \<Rightarrow> string \<Rightarrow> Container list \<Rightarrow> internal_Service list
    \<Rightarrow> internal_Service list" where
  "scan_cts client nodeName [] services = services"
| "scan_cts client nodeName (ct # rest) services =
     (if CT_Status ct = ''running'' then
        (case GetContainerConfig client nodeName (CT_VMID ct) of
           Inl err \<Rightarrow> scan_cts client nodeName rest services
         | Inr configMap \<Rightarrow>
             if lookup configMap ''traefik.enable'' \<noteq> ''true''
             then scan_cts client nodeName rest services
             else
               (let service = NewService (CT_VMID ct) (CT_Name ct) configMap;
                    service = (case getIPsOfService client nodeName (CT_VMID ct) True of
                                 Inr ips \<Rightarrow> service\<lparr>IPs := ips\<rparr>
                               | Inl err \<Rightarrow> service)
                in scan_cts client nodeName rest (services @ [service])))
      else scan_cts client nodeName rest services)"

definition scanServices :: "ProxmoxClient \<Rightarrow> string \<Rightarrow> error + internal_Service list" where
  "scanServices client nodeName =
     (case GetVirtualMachines client nodeName of
        Inl err \<Rightarrow> Inl (Errorf (''error scanning VMs on node '' @ nodeName @ '': '') err)
      | Inr vms \<Rightarrow>
          (let services = scan_vms client nodeName vms [] in
           case GetContainers client nodeName of
             Inl err \<Rightarrow>
               Inl (Errorf (''error scanning containers on node '' @ nodeName @ '': '') err)
           | Inr cts \<Rightarrow> Inr (scan_cts client nodeName cts services)))"

section \<open>Reading a configuration\<close>

text \<open>
  The server at index \<open>i\<close> of the load balancer of a TCP or UDP service, when the service,
  its load balancer and that index exist.
\<close>

definition tcp_server_at :: "TCPConfiguration \<Rightarrow> string \<Rightarrow> nat \<Rightarrow> TCPServer option" where
  "tcp_server_at tcpConfig serviceName i =
     (case TCP_Services tcpConfig serviceName of
        None \<Rightarrow> None
      | Some configService \<Rightarrow>
          (case TCP_LoadBalancer configService of
             None \<Rightarrow> None
           | Some lb \<Rightarrow> if i < length (TCP_Servers lb) then Some (TCP_Servers lb ! i) else None))"

definition udp_server_at :: "UDPConfiguration \<Rightarrow> string \<Rightarrow> nat \<Rightarrow> UDPServer option" where
  "udp_server_at udpConfig serviceName i =
     (case UDP_Services udpConfig serviceName of
        None \<Rightarrow> None
      | Some configService \<Rightarrow>
          (case UDP_LoadBalancer configService of
             None \<Rightarrow> None
           | Some lb \<Rightarrow> if i < length (UDP_Servers lb) then Some (UDP_Servers lb ! i) else None))"

section \<open>Element discovery: what is found\<close>

lemma Split_not_Nil: "Split s sep \<noteq> []"
  by (induction s) (auto split: list.splits)

lemma Split_first: "Split s sep ! 0 = takeWhile (\<lambda>c. c \<noteq> sep) s"
  by (induction s) (auto split: list.splits simp: Split_not_Nil)

lemma HasPrefix_iff: "HasPrefix k p \<longleftrightarrow> (\<exists>rest. k = p @ rest)"
  unfolding HasPrefix_def
  by (metis append_eq_conv_conj append_take_drop_id length_append le_add1)

lemma set_store_key: "set (store_key k keys) = insert k (set keys)"
  by (auto simp: store_key_def)

lemma distinct_store_key: "distinct keys \<Longrightarrow> distinct (store_key k keys)"
  by (auto simp: store_key_def)

lemma set_collect_keys:
  "set (collect_keys p lbls keys) =
     set keys \<union> {takeWhile (\<lambda>c. c \<noteq> CHR ''.'') rest | rest. p @ rest \<in> fst ` set lbls}"
proof (induction lbls arbitrary: keys)
  case Nil
  then show ?case by simp
next
  case (Cons kv lbls)
  obtain k v where kv: "kv = (k, v)" by (cases kv)
  show ?case
  proof (cases "HasPrefix k p")
    case True
    then obtain rest where k: "k = p @ rest" by (auto simp: HasPrefix_iff)
    show ?thesis
      using True Cons.IH[of "store_key (takeWhile (\<lambda>c. c \<noteq> CHR ''.'') rest) keys"]
      by (auto simp: kv k Let_def Split_not_Nil Split_first set_store_key)
  next
    case False
    then have "\<And>rest. k \<noteq> p @ rest" by (auto simp: HasPrefix_iff)
    then show ?thesis
      using False Cons.IH[of keys] by (auto simp: kv)
  qed
qed

lemma distinct_collect_keys:
  "distinct keys \<Longrightarrow> distinct (collect_keys p lbls keys)"
  by (induction p lbls keys rule: collect_keys.induct)
     (auto simp: Let_def distinct_store_key)

text \<open>
  C5. For every label mapping, protocol and element type, the identifiers that
  \<open>getDefinedElements\<close> returns are exactly the first path segments (the text up to the
  first dot) of what follows the prefix \<open>traefik.<protocol>.<elementType>.\<close> in the keys
  of the mapping, and no identifier is returned twice. The keys
  \<open>traefik.http.routers.myrouter.rule\<close> and \<open>traefik.http.routers.myrouter.service\<close>
  give the one identifier \<open>myrouter\<close>.
\<close>

theorem getDefinedElements_first_segments:
  "set (getDefinedElements lbls proto elemType) =
     {takeWhile (\<lambda>c. c \<noteq> CHR ''.'') rest | rest.
        ''traefik.'' @ proto @ ''.'' @ elemType @ ''.'' @ rest \<in> fst ` set lbls}
   \<and> distinct (getDefinedElements lbls proto elemType)
   \<and> getDefinedElements
        [(''traefik.http.routers.myrouter.rule'', rule),
         (''traefik.http.routers.myrouter.service'', svc)] ''http'' ''routers'' = [''myrouter'']"
proof (intro conjI)
  show "set (getDefinedElements lbls proto elemType) =
     {takeWhile (\<lambda>c. c \<noteq> CHR ''.'') rest | rest.
        ''traefik.'' @ proto @ ''.'' @ elemType @ ''.'' @ rest \<in> fst ` set lbls}"
    by (simp add: getDefinedElements_def set_collect_keys element_prefix_def)
  show "distinct (getDefinedElements lbls proto elemType)"
    by (simp add: getDefinedElements_def distinct_collect_keys)
  show "getDefinedElements
        [(''traefik.http.routers.myrouter.rule'', rule),
         (''traefik.http.routers.myrouter.service'', svc)] ''http'' ''routers'' = [''myrouter'']"
    by (simp add: getDefinedElements_def element_prefix_def HasPrefix_def store_key_def)
qed

section \<open>Address resolution: which host, which URL\<close>

lemma first_valid_ip_None:
  "first_valid_ip ips = None \<longleftrightarrow>
     (\<forall>ip \<in> set ips. \<not> (Address ip \<noteq> [] \<and> Address ip \<noteq> ''127.0.0.1''))"
  by (induction ips) auto

lemma first_valid_ip_Some:
  "i < length ips \<Longrightarrow> Address (ips ! i) \<noteq> [] \<Longrightarrow> Address (ips ! i) \<noteq> ''127.0.0.1'' \<Longrightarrow>
   (\<forall>j < i. Address (ips ! j) = [] \<or> Address (ips ! j) = ''127.0.0.1'') \<Longrightarrow>
   first_valid_ip ips = Some (Address (ips ! i))"
proof (induction ips arbitrary: i)
  case Nil
  then show ?case by simp
next
  case (Cons ip ips)
  show ?case
  proof (cases i)
    case 0
    with Cons.prems show ?thesis by simp
  next
    case (Suc n)
    with Cons.prems have "Address ip = [] \<or> Address ip = ''127.0.0.1''" by auto
    moreover have "first_valid_ip ips = Some (Address (ips ! n))"
      using Cons.prems Suc by (intro Cons.IH) auto
    ultimately show ?thesis using Suc by auto
  qed
qed

text \<open>
  C3. \<open>getServiceIP\<close> returns the first reported address that is neither empty nor
  \<open>127.0.0.1\<close>: the address at index \<open>i\<close> when it qualifies and none before it does. When
  no reported address qualifies, the empty list included, it returns
  \<open><workload-name>.<node-name>\<close>. It has no error result: both cases return a host.
\<close>

theorem getServiceIP_first_valid:
  "(\<forall>i < length (IPs service).
      Address (IPs service ! i) \<noteq> [] \<and> Address (IPs service ! i) \<noteq> ''127.0.0.1'' \<and>
      (\<forall>j < i. Address (IPs service ! j) = [] \<or> Address (IPs service ! j) = ''127.0.0.1'')
      \<longrightarrow> getServiceIP service nodeName = Address (IPs service ! i))
   \<and> ((\<forall>ip \<in> set (IPs service). Address ip = [] \<or> Address ip = ''127.0.0.1'')
      \<longrightarrow> getServiceIP service nodeName = Name service @ ''.'' @ nodeName)"
proof (intro conjI allI impI)
  fix i
  assume "i < length (IPs service)"
    and "Address (IPs service ! i) \<noteq> [] \<and> Address (IPs service ! i) \<noteq> ''127.0.0.1'' \<and>
      (\<forall>j < i. Address (IPs service ! j) = [] \<or> Address (IPs service ! j) = ''127.0.0.1'')"
  then have "first_valid_ip (IPs service) = Some (Address (IPs service ! i))"
    by (intro first_valid_ip_Some) auto
  then show "getServiceIP service nodeName = Address (IPs service ! i)"
    by (simp add: getServiceIP_def)
next
  assume "\<forall>ip \<in> set (IPs service). Address ip = [] \<or> Address ip = ''127.0.0.1''"
  then have "first_valid_ip (IPs service) = None"
    by (auto simp: first_valid_ip_None)
  then show "getServiceIP service nodeName = Name service @ ''.'' @ nodeName"
    by (simp add: getServiceIP_def)
qed

theorem getServiceIP_first_valid_witness:
  "getServiceIP \<lparr>ID = 100, Name = ''web'', Config = [],
       IPs = [\<lparr>Address = ''127.0.0.1'', AddressType = ''ipv4''\<rparr>,
              \<lparr>Address = ''10.0.0.5'', AddressType = ''ipv4''\<rparr>]\<rparr> ''pve'' = ''10.0.0.5''
   \<and> getServiceIP \<lparr>ID = 100, Name = ''web'', Config = [], IPs = []\<rparr> ''pve'' = ''web.pve''"
proof
  show "getServiceIP \<lparr>ID = 100, Name = ''web'', Config = [],
       IPs = [\<lparr>Address = ''127.0.0.1'', AddressType = ''ipv4''\<rparr>,
              \<lparr>Address = ''10.0.0.5'', AddressType = ''ipv4''\<rparr>]\<rparr> ''pve'' = ''10.0.0.5''"
    using getServiceIP_first_valid [of "\<lparr>ID = 100, Name = ''web'', Config = [],
       IPs = [\<lparr>Address = ''127.0.0.1'', AddressType = ''ipv4''\<rparr>,
              \<lparr>Address = ''10.0.0.5'', AddressType = ''ipv4''\<rparr>]\<rparr>" "''pve''"]
    by (auto dest!: spec[of _ 1])
  show "getServiceIP \<lparr>ID = 100, Name = ''web'', Config = [], IPs = []\<rparr> ''pve'' = ''web.pve''"
    using getServiceIP_first_valid [of "\<lparr>ID = 100, Name = ''web'', Config = [], IPs = []\<rparr>" "''pve''"]
    by simp
qed

text \<open>
  C4. \<open>buildServerURL\<close> returns \<open><scheme>://<resolved-host>:<port>\<close>. The scheme is
  \<open>https\<close> when the scheme hint of the server is exactly \<open>https\<close> and \<open>http\<close> for every
  other hint; the port is the port hint when that is not empty, and otherwise \<open>443\<close> for
  \<open>https\<close> and \<open>80\<close> for \<open>http\<close>.
\<close>

theorem buildServerURL_scheme_port:
  "buildServerURL service server nodeName =
     (if Scheme server = ''https'' then ''https'' else ''http'')
     @ ''://'' @ getServiceIP service nodeName @ '':''
     @ (if Port server \<noteq> [] then Port server
        else if Scheme server = ''https'' then ''443'' else ''80'')"
  by (simp add: buildServerURL_def Let_def)

theorem buildServerURL_scheme_port_witness:
  "buildServerURL \<lparr>ID = 100, Name = ''web'', Config = [], IPs = []\<rparr>
       \<lparr>URL = [], Scheme = ''https'', Port = []\<rparr> ''pve'' = ''https://web.pve:443''
   \<and> buildServerURL \<lparr>ID = 100, Name = ''web'', Config = [], IPs = []\<rparr>
       \<lparr>URL = [], Scheme = [], Port = ''8080''\<rparr> ''pve'' = ''http://web.pve:8080''
   \<and> buildServerURL \<lparr>ID = 100, Name = ''web'', Config = [], IPs = []\<rparr>
       \<lparr>URL = [], Scheme = ''HTTPS'', Port = []\<rparr> ''pve'' = ''http://web.pve:80''"
  using buildServerURL_scheme_port [of "\<lparr>ID = 100, Name = ''web'', Config = [], IPs = []\<rparr>"
          "\<lparr>URL = [], Scheme = ''https'', Port = []\<rparr>" "''pve''"]
        buildServerURL_scheme_port [of "\<lparr>ID = 100, Name = ''web'', Config = [], IPs = []\<rparr>"
          "\<lparr>URL = [], Scheme = [], Port = ''8080''\<rparr>" "''pve''"]
        buildServerURL_scheme_port [of "\<lparr>ID = 100, Name = ''web'', Config = [], IPs = []\<rparr>"
          "\<lparr>URL = [], Scheme = ''HTTPS'', Port = []\<rparr>" "''pve''"]
  by (simp add: getServiceIP_def)

section \<open>The HTTP synthesizer on a workload without HTTP labels\<close>

lemma getDefinedElements_Nil_iff:
  "getDefinedElements lbls proto elemType = [] \<longleftrightarrow>
     (\<forall>rest. ''traefik.'' @ proto @ ''.'' @ elemType @ ''.'' @ rest \<notin> fst ` set lbls)"
proof -
  have "getDefinedElements lbls proto elemType = [] \<longleftrightarrow>
          set (getDefinedElements lbls proto elemType) = {}"
    by simp
  also have "\<dots> \<longleftrightarrow>
     (\<forall>rest. ''traefik.'' @ proto @ ''.'' @ elemType @ ''.'' @ rest \<notin> fst ` set lbls)"
    unfolding getDefinedElements_def set_collect_keys element_prefix_def by auto
  finally show ?thesis .
qed

lemma decimal_100: "decimal 100 = ''100''"
  by (simp add: decimal.simps digit_def)

text \<open>
  C1. When no key of the workload's label mapping starts with \<open>traefik.http.routers.\<close> or
  with \<open>traefik.http.services.\<close>, \<open>buildHTTPConfiguration\<close> changes the configuration in
  two entries and no other: the router and the service under \<open><name>-<id>\<close>. The router
  has the rule \<open>Host(`<name>`)\<close>, priority 1, and names that service; the service has
  pass-host-header true and one server, whose URL is \<open>http://<resolved-host>:80\<close> (a
  synthesized server carries no scheme or port hint).
\<close>

theorem buildHTTPConfiguration_defaults:
  assumes "\<forall>rest. ''traefik.http.routers.'' @ rest \<notin> fst ` set (Config service)"
    and "\<forall>rest. ''traefik.http.services.'' @ rest \<notin> fst ` set (Config service)"
  shows "buildHTTPConfiguration httpConfig service nodeName =
     httpConfig
       \<lparr>Routers := (Routers httpConfig)
          (Name service @ ''-'' @ decimal (unat (ID service)) \<mapsto>
             \<lparr>Service = Name service @ ''-'' @ decimal (unat (ID service)),
              Rule = ''Host(`'' @ Name service @ ''`)'',
              Priority = Some 1\<rparr>),
        Services := (Services httpConfig)
          (Name service @ ''-'' @ decimal (unat (ID service)) \<mapsto>
             \<lparr>LoadBalancer = Some
                \<lparr>PassHostHeader = Some True,
                 Servers = [\<lparr>URL = ''http://'' @ getServiceIP service nodeName @ '':80'',
                             Scheme = [], Port = []\<rparr>]\<rparr>\<rparr>)\<rparr>"
proof -
  have r: "getDefinedElements (Config service) ''http'' ''routers'' = []"
    using assms(1) getDefinedElements_Nil_iff [of "Config service" "''http''" "''routers''"]
    by simp
  have s: "getDefinedElements (Config service) ''http'' ''services'' = []"
    using assms(2) getDefinedElements_Nil_iff [of "Config service" "''http''" "''services''"]
    by simp
  show ?thesis
    unfolding buildHTTPConfiguration_def r s
    by (simp add: http_enrich_router_def http_enrich_service_def http_enrich_server_def
        buildServerURL_def defaultID_def)
qed

theorem buildHTTPConfiguration_defaults_witness:
  "buildHTTPConfiguration (HTTP new_Configuration)
      \<lparr>ID = 100, Name = ''web'', Config = [(''traefik.enable'', ''true'')],
       IPs = [\<lparr>Address = ''10.0.0.5'', AddressType = ''ipv4''\<rparr>]\<rparr> ''pve'' =
     \<lparr>Routers = [''web-100'' \<mapsto>
         \<lparr>Service = ''web-100'', Rule = ''Host(`web`)'', Priority = Some 1\<rparr>],
      Services = [''web-100'' \<mapsto>
         \<lparr>LoadBalancer = Some \<lparr>PassHostHeader = Some True,
            Servers = [\<lparr>URL = ''http://10.0.0.5:80'', Scheme = [], Port = []\<rparr>]\<rparr>\<rparr>],
      Middlewares = Map.empty\<rparr>"
  using buildHTTPConfiguration_defaults [of
      "\<lparr>ID = 100, Name = ''web'', Config = [(''traefik.enable'', ''true'')],
       IPs = [\<lparr>Address = ''10.0.0.5'', AddressType = ''ipv4''\<rparr>]\<rparr>"
      "HTTP new_Configuration" "''pve''"]
  by (simp add: new_Configuration_def getServiceIP_def decimal_100)

section \<open>The TCP and UDP synthesizers\<close>

subsection \<open>TCP\<close>

lemma tcp_enrich_server_idem:
  "tcp_enrich_server service nodeName (tcp_enrich_server service nodeName server) =
     tcp_enrich_server service nodeName server"
  by (simp add: tcp_enrich_server_def buildStreamServerAddress_def)

lemma tcp_routers_loop_Services [simp]:
  "TCP_Services (tcp_routers_loop rs ds tcpConfig) = TCP_Services tcpConfig"
  by (induction rs ds tcpConfig rule: tcp_routers_loop.induct) (auto split: option.splits)

lemma tcp_services_loop_Routers [simp]:
  "TCP_Routers (tcp_services_loop ss service nodeName tcpConfig) = TCP_Routers tcpConfig"
  by (induction ss service nodeName tcpConfig rule: tcp_services_loop.induct)
     (auto split: option.splits)

lemma tcp_services_loop_None:
  "TCP_Services (tcp_services_loop ss service nodeName tcpConfig) k = None \<longleftrightarrow>
     TCP_Services tcpConfig k = None"
  by (induction ss service nodeName tcpConfig rule: tcp_services_loop.induct)
     (auto split: option.splits)

lemma tcp_services_loop_dom [simp]:
  "dom (TCP_Services (tcp_services_loop ss service nodeName tcpConfig)) =
     dom (TCP_Services tcpConfig)"
  unfolding dom_def by (simp add: tcp_services_loop_None)

lemma tcp_server_at_routers_loop [simp]:
  "tcp_server_at (tcp_routers_loop rs ds tcpConfig) k i = tcp_server_at tcpConfig k i"
  by (simp add: tcp_server_at_def)

lemma tcp_server_at_step:
  assumes "TCP_Services tcpConfig name = Some configService"
    and "tcp_server_at tcpConfig k i = Some server"
  shows "tcp_server_at
           (tcpConfig\<lparr>TCP_Services := (TCP_Services tcpConfig)
              (name \<mapsto> tcp_enrich_service service nodeName configService)\<rparr>) k i =
         Some (if k = name then tcp_enrich_server service nodeName server else server)"
  using assms
  by (auto simp: tcp_server_at_def tcp_enrich_service_def Let_def
           split: option.splits if_splits)

lemma tcp_server_at_services_loop:
  assumes "tcp_server_at tcpConfig k i = Some server"
  shows "tcp_server_at (tcp_services_loop ss service nodeName tcpConfig) k i =
         Some (if k \<in> set ss then tcp_enrich_server service nodeName server else server)"
  using assms
proof (induction ss arbitrary: tcpConfig server)
  case Nil
  then show ?case by simp
next
  case (Cons name ss)
  show ?case
  proof (cases "TCP_Services tcpConfig name")
    case None
    then have "k \<noteq> name"
      using Cons.prems by (auto simp: tcp_server_at_def)
    then show ?thesis
      using None Cons.IH [OF Cons.prems] by simp
  next
    case (Some configService)
    show ?thesis
      using Some Cons.IH [OF tcp_server_at_step [OF Some Cons.prems]]
      by (simp add: tcp_enrich_server_idem)
  qed
qed

lemma buildTCPConfiguration_server_at:
  assumes "tcp_server_at tcpConfig k i = Some server"
    and "k \<noteq> defaultID service
         \<or> getDefinedElements (Config service) ''tcp'' ''routers'' = []
         \<or> getDefinedElements (Config service) ''tcp'' ''services'' \<noteq> []"
  shows "tcp_server_at (buildTCPConfiguration tcpConfig service nodeName) k i =
         Some (if k \<in> set (getDefinedElements (Config service) ''tcp'' ''services'')
               then tcp_enrich_server service nodeName server else server)"
proof (cases "getDefinedElements (Config service) ''tcp'' ''routers'' \<noteq> []
              \<and> getDefinedElements (Config service) ''tcp'' ''services'' = []")
  case True
  then have k: "k \<noteq> defaultID service" using assms(2) by simp
  have "tcp_server_at
          (tcpConfig\<lparr>TCP_Services := (TCP_Services tcpConfig)
             (defaultID service \<mapsto> \<lparr>TCP_LoadBalancer = None\<rparr>)\<rparr>) k i = Some server"
    using assms(1) k by (simp add: tcp_server_at_def)
  then have "tcp_server_at
          (tcp_routers_loop (getDefinedElements (Config service) ''tcp'' ''routers'')
             [defaultID service]
             (tcpConfig\<lparr>TCP_Services := (TCP_Services tcpConfig)
                (defaultID service \<mapsto> \<lparr>TCP_LoadBalancer = None\<rparr>)\<rparr>)) k i = Some server"
    by simp
  from tcp_server_at_services_loop [OF this, of "[defaultID service]" service nodeName]
  show ?thesis
    using True k by (simp add: buildTCPConfiguration_def)
next
  case False
  then show ?thesis
    using assms(1)
    by (auto simp: buildTCPConfiguration_def Let_def tcp_server_at_services_loop)
qed

lemma buildTCPConfiguration_default_created:
  assumes "getDefinedElements (Config service) ''tcp'' ''routers'' \<noteq> []"
    and "getDefinedElements (Config service) ''tcp'' ''services'' = []"
  shows "TCP_Services (buildTCPConfiguration tcpConfig service nodeName) =
     (TCP_Services tcpConfig)
       (defaultID service \<mapsto>
          \<lparr>TCP_LoadBalancer = Some \<lparr>TCP_Servers = [\<lparr>TCP_Address = [], TCP_Port = []\<rparr>]\<rparr>\<rparr>)"
  using assms
  by (simp add: buildTCPConfiguration_def tcp_enrich_service_def tcp_enrich_server_def)

lemma buildTCPConfiguration_no_default:
  assumes "\<not> (getDefinedElements (Config service) ''tcp'' ''routers'' \<noteq> []
              \<and> getDefinedElements (Config service) ''tcp'' ''services'' = [])"
  shows "dom (TCP_Services (buildTCPConfiguration tcpConfig service nodeName)) =
         dom (TCP_Services tcpConfig)"
proof -
  have "buildTCPConfiguration tcpConfig service nodeName =
          tcp_services_loop (getDefinedElements (Config service) ''tcp'' ''services'')
            service nodeName
            (tcp_routers_loop (getDefinedElements (Config service) ''tcp'' ''routers'')
               (getDefinedElements (Config service) ''tcp'' ''services'') tcpConfig)"
    using assms by (auto simp: buildTCPConfiguration_def Let_def)
  then show ?thesis by simp
qed

lemma buildTCPConfiguration_no_labels:
  assumes "getDefinedElements (Config service) ''tcp'' ''routers'' = []"
    and "getDefinedElements (Config service) ''tcp'' ''services'' = []"
  shows "buildTCPConfiguration tcpConfig service nodeName = tcpConfig"
  using assms by (simp add: buildTCPConfiguration_def)

subsection \<open>UDP\<close>

lemma udp_enrich_server_idem:
  "udp_enrich_server service nodeName (udp_enrich_server service nodeName server) =
     udp_enrich_server service nodeName server"
  by (simp add: udp_enrich_server_def buildStreamServerAddress_def)

lemma udp_routers_loop_Services [simp]:
  "UDP_Services (udp_routers_loop rs ds udpConfig) = UDP_Services udpConfig"
  by (induction rs ds udpConfig rule: udp_routers_loop.induct) (auto split: option.splits)

lemma udp_services_loop_Routers [simp]:
  "UDP_Routers (udp_services_loop ss service nodeName udpConfig) = UDP_Routers udpConfig"
  by (induction ss service nodeName udpConfig rule: udp_services_loop.induct)
     (auto split: option.splits)

lemma udp_services_loop_None:
  "UDP_Services (udp_services_loop ss service nodeName udpConfig) k = None \<longleftrightarrow>
     UDP_Services udpConfig k = None"
  by (induction ss service nodeName udpConfig rule: udp_services_loop.induct)
     (auto split: option.splits)

lemma udp_services_loop_dom [simp]:
  "dom (UDP_Services (udp_services_loop ss service nodeName udpConfig)) =
     dom (UDP_Services udpConfig)"
  unfolding dom_def by (simp add: udp_services_loop_None)

lemma udp_server_at_routers_loop [simp]:
  "udp_server_at (udp_routers_loop rs ds udpConfig) k i = udp_server_at udpConfig k i"
  by (simp add: udp_server_at_def)

lemma udp_server_at_step:
  assumes "UDP_Services udpConfig name = Some configService"
    and "udp_server_at udpConfig k i = Some server"
  shows "udp_server_at
           (udpConfig\<lparr>UDP_Services := (UDP_Services udpConfig)
              (name \<mapsto> udp_enrich_service service nodeName configService)\<rparr>) k i =
         Some (if k = name then udp_enrich_server service nodeName server else server)"
  using assms
  by (auto simp: udp_server_at_def udp_enrich_service_def Let_def
           split: option.splits if_splits)

lemma udp_server_at_services_loop:
  assumes "udp_server_at udpConfig k i = Some server"
  shows "udp_server_at (udp_services_loop ss service nodeName udpConfig) k i =
         Some (if k \<in> set ss then udp_enrich_server service nodeName server else server)"
  using assms
proof (induction ss arbitrary: udpConfig server)
  case Nil
  then show ?case by simp
next
  case (Cons name ss)
  show ?case
  proof (cases "UDP_Services udpConfig name")
    case None
    then have "k \<noteq> name"
      using Cons.prems by (auto simp: udp_server_at_def)
    then show ?thesis
      using None Cons.IH [OF Cons.prems] by simp
  next
    case (Some configService)
    show ?thesis
      using Some Cons.IH [OF udp_server_at_step [OF Some Cons.prems]]
      by (simp add: udp_enrich_server_idem)
  qed
qed

lemma buildUDPConfiguration_server_at:
  assumes "udp_server_at udpConfig k i = Some server"
    and "k \<noteq> defaultID service
         \<or> getDefinedElements (Config service) ''udp'' ''routers'' = []
         \<or> getDefinedElements (Config service) ''udp'' ''services'' \<noteq> []"
  shows "udp_server_at (buildUDPConfiguration udpConfig service nodeName) k i =
         Some (if k \<in> set (getDefinedElements (Config service) ''udp'' ''services'')
               then udp_enrich_server service nodeName server else server)"
proof (cases "getDefinedElements (Config service) ''udp'' ''routers'' \<noteq> []
              \<and> getDefinedElements (Config service) ''udp'' ''services'' = []")
  case True
  then have k: "k \<noteq> defaultID service" using assms(2) by simp
  have "udp_server_at
          (udpConfig\<lparr>UDP_Services := (UDP_Services udpConfig)
             (defaultID service \<mapsto> \<lparr>UDP_LoadBalancer = None\<rparr>)\<rparr>) k i = Some server"
    using assms(1) k by (simp add: udp_server_at_def)
  then have "udp_server_at
          (udp_routers_loop (getDefinedElements (Config service) ''udp'' ''routers'')
             [defaultID service]
             (udpConfig\<lparr>UDP_Services := (UDP_Services udpConfig)
                (defaultID service \<mapsto> \<lparr>UDP_LoadBalancer = None\<rparr>)\<rparr>)) k i = Some server"
    by simp
  from udp_server_at_services_loop [OF this, of "[defaultID service]" service nodeName]
  show ?thesis
    using True k by (simp add: buildUDPConfiguration_def)
next
  case False
  then show ?thesis
    using assms(1)
    by (auto simp: buildUDPConfiguration_def Let_def udp_server_at_services_loop)
qed

lemma buildUDPConfiguration_default_created:
  assumes "getDefinedElements (Config service) ''udp'' ''routers'' \<noteq> []"
    and "getDefinedElements (Config service) ''udp'' ''services'' = []"
  shows "UDP_Services (buildUDPConfiguration udpConfig service nodeName) =
     (UDP_Services udpConfig)
       (defaultID service \<mapsto>
          \<lparr>UDP_LoadBalancer = Some \<lparr>UDP_Servers = [\<lparr>UDP_Address = [], UDP_Port = []\<rparr>]\<rparr>\<rparr>)"
  using assms
  by (simp add: buildUDPConfiguration_def udp_enrich_service_def udp_enrich_server_def)

lemma buildUDPConfiguration_no_default:
  assumes "\<not> (getDefinedElements (Config service) ''udp'' ''routers'' \<noteq> []
              \<and> getDefinedElements (Config service) ''udp'' ''services'' = [])"
  shows "dom (UDP_Services (buildUDPConfiguration udpConfig service nodeName)) =
         dom (UDP_Services udpConfig)"
proof -
  have "buildUDPConfiguration udpConfig service nodeName =
          udp_services_loop (getDefinedElements (Config service) ''udp'' ''services'')
            service nodeName
            (udp_routers_loop (getDefinedElements (Config service) ''udp'' ''routers'')
               (getDefinedElements (Config service) ''udp'' ''services'') udpConfig)"
    using assms by (auto simp: buildUDPConfiguration_def Let_def)
  then show ?thesis by simp
qed

lemma buildUDPConfiguration_no_labels:
  assumes "getDefinedElements (Config service) ''udp'' ''routers'' = []"
    and "getDefinedElements (Config service) ''udp'' ''services'' = []"
  shows "buildUDPConfiguration udpConfig service nodeName = udpConfig"
  using assms by (simp add: buildUDPConfiguration_def)

subsection \<open>When a default service is made\<close>

text \<open>
  C2. The TCP synthesizer, and the UDP synthesizer in the same way, makes a default service
  under \<open><name>-<id>\<close> exactly when \<open>getDefinedElements\<close> finds at least one router
  identifier and no service identifier of that protocol in the workload's labels. When it
  does, the services afterwards are the services before with the entry \<open><name>-<id>\<close> set
  to a service of one server without address; when it does not, no service key is added;
  and for a workload with neither router nor service labels of the protocol the
  configuration of that protocol comes back as it was, no router and no service added.
\<close>

theorem stream_default_service:
  "(defaultID service \<notin> dom (TCP_Services tcpConfig) \<longrightarrow>
      (defaultID service \<in> dom (TCP_Services (buildTCPConfiguration tcpConfig service nodeName))
       \<longleftrightarrow> getDefinedElements (Config service) ''tcp'' ''routers'' \<noteq> []
           \<and> getDefinedElements (Config service) ''tcp'' ''services'' = []))
   \<and> (getDefinedElements (Config service) ''tcp'' ''routers'' \<noteq> []
        \<and> getDefinedElements (Config service) ''tcp'' ''services'' = [] \<longrightarrow>
      TCP_Services (buildTCPConfiguration tcpConfig service nodeName) =
        (TCP_Services tcpConfig)
          (defaultID service \<mapsto>
             \<lparr>TCP_LoadBalancer = Some \<lparr>TCP_Servers = [\<lparr>TCP_Address = [], TCP_Port = []\<rparr>]\<rparr>\<rparr>))
   \<and> (\<not> (getDefinedElements (Config service) ''tcp'' ''routers'' \<noteq> []
           \<and> getDefinedElements (Config service) ''tcp'' ''services'' = []) \<longrightarrow>
      dom (TCP_Services (buildTCPConfiguration tcpConfig service nodeName)) =
        dom (TCP_Services tcpConfig))
   \<and> (getDefinedElements (Config service) ''tcp'' ''routers'' = []
        \<and> getDefinedElements (Config service) ''tcp'' ''services'' = [] \<longrightarrow>
      buildTCPConfiguration tcpConfig service nodeName = tcpConfig)
   \<and> (defaultID service \<notin> dom (UDP_Services udpConfig) \<longrightarrow>
      (defaultID service \<in> dom (UDP_Services (buildUDPConfiguration udpConfig service nodeName))
       \<longleftrightarrow> getDefinedElements (Config service) ''udp'' ''routers'' \<noteq> []
           \<and> getDefinedElements (Config service) ''udp'' ''services'' = []))
   \<and> (getDefinedElements (Config service) ''udp'' ''routers'' \<noteq> []
        \<and> getDefinedElements (Config service) ''udp'' ''services'' = [] \<longrightarrow>
      UDP_Services (buildUDPConfiguration udpConfig service nodeName) =
        (UDP_Services udpConfig)
          (defaultID service \<mapsto>
             \<lparr>UDP_LoadBalancer = Some \<lparr>UDP_Servers = [\<lparr>UDP_Address = [], UDP_Port = []\<rparr>]\<rparr>\<rparr>))
   \<and> (\<not> (getDefinedElements (Config service) ''udp'' ''routers'' \<noteq> []
           \<and> getDefinedElements (Config service) ''udp'' ''services'' = []) \<longrightarrow>
      dom (UDP_Services (buildUDPConfiguration udpConfig service nodeName)) =
        dom (UDP_Services udpConfig))
   \<and> (getDefinedElements (Config service) ''udp'' ''routers'' = []
        \<and> getDefinedElements (Config service) ''udp'' ''services'' = [] \<longrightarrow>
      buildUDPConfiguration udpConfig service nodeName = udpConfig)"
proof -
  have tcp_iff: "defaultID service \<in> dom (TCP_Services (buildTCPConfiguration tcpConfig service nodeName))
       \<longleftrightarrow> getDefinedElements (Config service) ''tcp'' ''routers'' \<noteq> []
           \<and> getDefinedElements (Config service) ''tcp'' ''services'' = []"
    if "defaultID service \<notin> dom (TCP_Services tcpConfig)"
  proof (cases "getDefinedElements (Config service) ''tcp'' ''routers'' \<noteq> []
           \<and> getDefinedElements (Config service) ''tcp'' ''services'' = []")
    case True
    then show ?thesis
      using buildTCPConfiguration_default_created [of service tcpConfig nodeName] by simp
  next
    case False
    then show ?thesis
      using that buildTCPConfiguration_no_default [OF False, of tcpConfig nodeName] by simp
  qed
  have udp_iff: "defaultID service \<in> dom (UDP_Services (buildUDPConfiguration udpConfig service nodeName))
       \<longleftrightarrow> getDefinedElements (Config service) ''udp'' ''routers'' \<noteq> []
           \<and> getDefinedElements (Config service) ''udp'' ''services'' = []"
    if "defaultID service \<notin> dom (UDP_Services udpConfig)"
  proof (cases "getDefinedElements (Config service) ''udp'' ''routers'' \<noteq> []
           \<and> getDefinedElements (Config service) ''udp'' ''services'' = []")
    case True
    then show ?thesis
      using buildUDPConfiguration_default_created [of service udpConfig nodeName] by simp
  next
    case False
    then show ?thesis
      using that buildUDPConfiguration_no_default [OF False, of udpConfig nodeName] by simp
  qed
  show ?thesis
    using tcp_iff udp_iff
      buildTCPConfiguration_default_created [of service tcpConfig nodeName]
      buildTCPConfiguration_no_default [of service tcpConfig nodeName]
      buildTCPConfiguration_no_labels [of service tcpConfig nodeName]
      buildUDPConfiguration_default_created [of service udpConfig nodeName]
      buildUDPConfiguration_no_default [of service udpConfig nodeName]
      buildUDPConfiguration_no_labels [of service udpConfig nodeName]
    by blast
qed

theorem stream_default_service_witness:
  "TCP_Services (buildTCPConfiguration
      \<lparr>TCP_Routers = [''foo'' \<mapsto> \<lparr>TCP_Service = [], TCP_Rule = ''HostSNI(`*`)'', TCP_Priority = None\<rparr>],
       TCP_Services = Map.empty\<rparr>
      \<lparr>ID = 100, Name = ''web'',
       Config = [(''traefik.tcp.routers.foo.rule'', ''HostSNI(`*`)''),
                 (''traefik.udp.routers.bar.entrypoints'', ''dns'')],
       IPs = []\<rparr> ''pve'') =
     [''web-100'' \<mapsto>
        \<lparr>TCP_LoadBalancer = Some \<lparr>TCP_Servers = [\<lparr>TCP_Address = [], TCP_Port = []\<rparr>]\<rparr>\<rparr>]
   \<and> UDP_Services (buildUDPConfiguration
      \<lparr>UDP_Routers = [''bar'' \<mapsto> \<lparr>UDP_Service = []\<rparr>], UDP_Services = Map.empty\<rparr>
      \<lparr>ID = 100, Name = ''web'',
       Config = [(''traefik.tcp.routers.foo.rule'', ''HostSNI(`*`)''),
                 (''traefik.udp.routers.bar.entrypoints'', ''dns'')],
       IPs = []\<rparr> ''pve'') =
     [''web-100'' \<mapsto>
        \<lparr>UDP_LoadBalancer = Some \<lparr>UDP_Servers = [\<lparr>UDP_Address = [], UDP_Port = []\<rparr>]\<rparr>\<rparr>]
   \<and> buildTCPConfiguration (TCP new_Configuration)
        \<lparr>ID = 100, Name = ''web'', Config = [(''traefik.enable'', ''true'')], IPs = []\<rparr> ''pve'' =
       TCP new_Configuration
   \<and> buildUDPConfiguration (UDP new_Configuration)
        \<lparr>ID = 100, Name = ''web'', Config = [(''traefik.enable'', ''true'')], IPs = []\<rparr> ''pve'' =
       UDP new_Configuration"
  using stream_default_service [where service = "\<lparr>ID = 100, Name = ''web'',
       Config = [(''traefik.tcp.routers.foo.rule'', ''HostSNI(`*`)''),
                 (''traefik.udp.routers.bar.entrypoints'', ''dns'')],
       IPs = []\<rparr>"
     and tcpConfig = "\<lparr>TCP_Routers = [''foo'' \<mapsto> \<lparr>TCP_Service = [], TCP_Rule = ''HostSNI(`*`)'', TCP_Priority = None\<rparr>],
       TCP_Services = Map.empty\<rparr>"
     and udpConfig = "\<lparr>UDP_Routers = [''bar'' \<mapsto> \<lparr>UDP_Service = []\<rparr>], UDP_Services = Map.empty\<rparr>"
     and nodeName = "''pve''"]
    stream_default_service [where service =
        "\<lparr>ID = 100, Name = ''web'', Config = [(''traefik.enable'', ''true'')], IPs = []\<rparr>"
     and tcpConfig = "TCP new_Configuration" and udpConfig = "UDP new_Configuration"
     and nodeName = "''pve''"]
  by (simp add: getDefinedElements_def element_prefix_def HasPrefix_def store_key_def
        defaultID_def decimal_100 new_Configuration_def)

subsection \<open>Servers whose address is already set\<close>

text \<open>
  C7. A TCP (or UDP) server whose \<open>Address\<close> is not empty when the synthesizer starts is
  the same server when it ends, whatever its port hint: same address, same hint, same
  place in its service. The service has to be one that enrichment meets: the synthesizer
  first replaces the entry \<open><name>-<id>\<close> by a fresh default service when it makes one, and
  the servers of a replaced entry are gone before enrichment starts.
\<close>

theorem stream_server_address_kept:
  "(tcp_server_at tcpConfig k i = Some server \<and> TCP_Address server \<noteq> []
      \<and> (k \<noteq> defaultID service
          \<or> getDefinedElements (Config service) ''tcp'' ''routers'' = []
          \<or> getDefinedElements (Config service) ''tcp'' ''services'' \<noteq> [])
      \<longrightarrow> tcp_server_at (buildTCPConfiguration tcpConfig service nodeName) k i = Some server)
   \<and> (udp_server_at udpConfig k' i' = Some server' \<and> UDP_Address server' \<noteq> []
      \<and> (k' \<noteq> defaultID service
          \<or> getDefinedElements (Config service) ''udp'' ''routers'' = []
          \<or> getDefinedElements (Config service) ''udp'' ''services'' \<noteq> [])
      \<longrightarrow> udp_server_at (buildUDPConfiguration udpConfig service nodeName) k' i' = Some server')"
proof (intro conjI impI)
  assume a: "tcp_server_at tcpConfig k i = Some server \<and> TCP_Address server \<noteq> []
      \<and> (k \<noteq> defaultID service
          \<or> getDefinedElements (Config service) ''tcp'' ''routers'' = []
          \<or> getDefinedElements (Config service) ''tcp'' ''services'' \<noteq> [])"
  then have "tcp_enrich_server service nodeName server = server"
    by (simp add: tcp_enrich_server_def)
  then show "tcp_server_at (buildTCPConfiguration tcpConfig service nodeName) k i = Some server"
    using a buildTCPConfiguration_server_at [of tcpConfig k i server service nodeName] by simp
next
  assume a: "udp_server_at udpConfig k' i' = Some server' \<and> UDP_Address server' \<noteq> []
      \<and> (k' \<noteq> defaultID service
          \<or> getDefinedElements (Config service) ''udp'' ''routers'' = []
          \<or> getDefinedElements (Config service) ''udp'' ''services'' \<noteq> [])"
  then have "udp_enrich_server service nodeName server' = server'"
    by (simp add: udp_enrich_server_def)
  then show "udp_server_at (buildUDPConfiguration udpConfig service nodeName) k' i' = Some server'"
    using a buildUDPConfiguration_server_at [of udpConfig k' i' server' service nodeName] by simp
qed

theorem stream_server_address_kept_witness:
  "tcp_server_at (buildTCPConfiguration
      \<lparr>TCP_Routers = Map.empty,
       TCP_Services = [''db'' \<mapsto> \<lparr>TCP_LoadBalancer = Some \<lparr>TCP_Servers =
          [\<lparr>TCP_Address = ''10.0.0.9:5432'', TCP_Port = ''6000''\<rparr>]\<rparr>\<rparr>]\<rparr>
      \<lparr>ID = 100, Name = ''web'',
       Config = [(''traefik.tcp.services.db.loadbalancer.server.port'', ''6000''),
                 (''traefik.udp.services.dns.loadbalancer.server.port'', ''53'')],
       IPs = [\<lparr>Address = ''10.0.0.5'', AddressType = ''ipv4''\<rparr>]\<rparr> ''pve'') ''db'' 0 =
     Some \<lparr>TCP_Address = ''10.0.0.9:5432'', TCP_Port = ''6000''\<rparr>
   \<and> udp_server_at (buildUDPConfiguration
      \<lparr>UDP_Routers = Map.empty,
       UDP_Services = [''dns'' \<mapsto> \<lparr>UDP_LoadBalancer = Some \<lparr>UDP_Servers =
          [\<lparr>UDP_Address = ''10.0.0.9:5353'', UDP_Port = ''53''\<rparr>]\<rparr>\<rparr>]\<rparr>
      \<lparr>ID = 100, Name = ''web'',
       Config = [(''traefik.tcp.services.db.loadbalancer.server.port'', ''6000''),
                 (''traefik.udp.services.dns.loadbalancer.server.port'', ''53'')],
       IPs = [\<lparr>Address = ''10.0.0.5'', AddressType = ''ipv4''\<rparr>]\<rparr> ''pve'') ''dns'' 0 =
     Some \<lparr>UDP_Address = ''10.0.0.9:5353'', UDP_Port = ''53''\<rparr>"
  using stream_server_address_kept [where tcpConfig = "\<lparr>TCP_Routers = Map.empty,
       TCP_Services = [''db'' \<mapsto> \<lparr>TCP_LoadBalancer = Some \<lparr>TCP_Servers =
          [\<lparr>TCP_Address = ''10.0.0.9:5432'', TCP_Port = ''6000''\<rparr>]\<rparr>\<rparr>]\<rparr>"
     and k = "''db''" and i = 0
     and server = "\<lparr>TCP_Address = ''10.0.0.9:5432'', TCP_Port = ''6000''\<rparr>"
     and udpConfig = "\<lparr>UDP_Routers = Map.empty,
       UDP_Services = [''dns'' \<mapsto> \<lparr>UDP_LoadBalancer = Some \<lparr>UDP_Servers =
          [\<lparr>UDP_Address = ''10.0.0.9:5353'', UDP_Port = ''53''\<rparr>]\<rparr>\<rparr>]\<rparr>"
     and k' = "''dns''" and i' = 0
     and server' = "\<lparr>UDP_Address = ''10.0.0.9:5353'', UDP_Port = ''53''\<rparr>"
     and service = "\<lparr>ID = 100, Name = ''web'',
       Config = [(''traefik.tcp.services.db.loadbalancer.server.port'', ''6000''),
                 (''traefik.udp.services.dns.loadbalancer.server.port'', ''53'')],
       IPs = [\<lparr>Address = ''10.0.0.5'', AddressType = ''ipv4''\<rparr>]\<rparr>"
     and nodeName = "''pve''"]
  by (simp add: tcp_server_at_def udp_server_at_def defaultID_def)

subsection \<open>Servers with neither address nor port\<close>

text \<open>
  C8. A TCP (or UDP) server with an empty \<open>Address\<close> and an empty port hint is the same
  server after the synthesizer, its \<open>Address\<close> still empty, in every service that reaches
  enrichment. The synthesizer goes on with the other servers: a server of a declared
  service with a port hint and no address gets \<open><resolved-host>:<port>\<close> at its own
  index, whatever the servers beside it lack. \<open>buildTCPConfiguration\<close> and
  \<open>buildUDPConfiguration\<close> have no error result and are total, so the pass that calls
  them returns and goes on with the next service and the next workload.
\<close>

theorem stream_server_without_port:
  "(tcp_server_at tcpConfig k i = Some server \<and> TCP_Address server = [] \<and> TCP_Port server = []
      \<and> (k \<noteq> defaultID service
          \<or> getDefinedElements (Config service) ''tcp'' ''routers'' = []
          \<or> getDefinedElements (Config service) ''tcp'' ''services'' \<noteq> [])
      \<longrightarrow> tcp_server_at (buildTCPConfiguration tcpConfig service nodeName) k i = Some server)
   \<and> (tcp_server_at tcpConfig k j = Some other \<and> TCP_Address other = [] \<and> TCP_Port other \<noteq> []
      \<and> k \<in> set (getDefinedElements (Config service) ''tcp'' ''services'')
      \<longrightarrow> tcp_server_at (buildTCPConfiguration tcpConfig service nodeName) k j =
            Some (other\<lparr>TCP_Address := getServiceIP service nodeName @ '':'' @ TCP_Port other\<rparr>))
   \<and> (udp_server_at udpConfig k' i' = Some server' \<and> UDP_Address server' = [] \<and> UDP_Port server' = []
      \<and> (k' \<noteq> defaultID service
          \<or> getDefinedElements (Config service) ''udp'' ''routers'' = []
          \<or> getDefinedElements (Config service) ''udp'' ''services'' \<noteq> [])
      \<longrightarrow> udp_server_at (buildUDPConfiguration udpConfig service nodeName) k' i' = Some server')
   \<and> (udp_server_at udpConfig k' j' = Some other' \<and> UDP_Address other' = [] \<and> UDP_Port other' \<noteq> []
      \<and> k' \<in> set (getDefinedElements (Config service) ''udp'' ''services'')
      \<longrightarrow> udp_server_at (buildUDPConfiguration udpConfig service nodeName) k' j' =
            Some (other'\<lparr>UDP_Address := getServiceIP service nodeName @ '':'' @ UDP_Port other'\<rparr>))"
proof (intro conjI impI)
  assume a: "tcp_server_at tcpConfig k i = Some server \<and> TCP_Address server = [] \<and> TCP_Port server = []
      \<and> (k \<noteq> defaultID service
          \<or> getDefinedElements (Config service) ''tcp'' ''routers'' = []
          \<or> getDefinedElements (Config service) ''tcp'' ''services'' \<noteq> [])"
  then have "tcp_enrich_server service nodeName server = server"
    by (simp add: tcp_enrich_server_def)
  then show "tcp_server_at (buildTCPConfiguration tcpConfig service nodeName) k i = Some server"
    using a buildTCPConfiguration_server_at [of tcpConfig k i server service nodeName] by simp
next
  assume a: "tcp_server_at tcpConfig k j = Some other \<and> TCP_Address other = [] \<and> TCP_Port other \<noteq> []
      \<and> k \<in> set (getDefinedElements (Config service) ''tcp'' ''services'')"
  then have ne: "getDefinedElements (Config service) ''tcp'' ''services'' \<noteq> []" by auto
  have "tcp_enrich_server service nodeName other =
          other\<lparr>TCP_Address := getServiceIP service nodeName @ '':'' @ TCP_Port other\<rparr>"
    using a by (simp add: tcp_enrich_server_def buildStreamServerAddress_def)
  then show "tcp_server_at (buildTCPConfiguration tcpConfig service nodeName) k j =
            Some (other\<lparr>TCP_Address := getServiceIP service nodeName @ '':'' @ TCP_Port other\<rparr>)"
    using a ne buildTCPConfiguration_server_at [of tcpConfig k j other service nodeName] by simp
next
  assume a: "udp_server_at udpConfig k' i' = Some server' \<and> UDP_Address server' = [] \<and> UDP_Port server' = []
      \<and> (k' \<noteq> defaultID service
          \<or> getDefinedElements (Config service) ''udp'' ''routers'' = []
          \<or> getDefinedElements (Config service) ''udp'' ''services'' \<noteq> [])"
  then have "udp_enrich_server service nodeName server' = server'"
    by (simp add: udp_enrich_server_def)
  then show "udp_server_at (buildUDPConfiguration udpConfig service nodeName) k' i' = Some server'"
    using a buildUDPConfiguration_server_at [of udpConfig k' i' server' service nodeName] by simp
next
  assume a: "udp_server_at udpConfig k' j' = Some other' \<and> UDP_Address other' = [] \<and> UDP_Port other' \<noteq> []
      \<and> k' \<in> set (getDefinedElements (Config service) ''udp'' ''services'')"
  then have ne: "getDefinedElements (Config service) ''udp'' ''services'' \<noteq> []" by auto
  have "udp_enrich_server service nodeName other' =
          other'\<lparr>UDP_Address := getServiceIP service nodeName @ '':'' @ UDP_Port other'\<rparr>"
    using a by (simp add: udp_enrich_server_def buildStreamServerAddress_def)
  then show "udp_server_at (buildUDPConfiguration udpConfig service nodeName) k' j' =
            Some (other'\<lparr>UDP_Address := getServiceIP service nodeName @ '':'' @ UDP_Port other'\<rparr>)"
    using a ne buildUDPConfiguration_server_at [of udpConfig k' j' other' service nodeName] by simp
qed

theorem stream_server_without_port_witness:
  "tcp_server_at (buildTCPConfiguration
      \<lparr>TCP_Routers = Map.empty,
       TCP_Services = [''db'' \<mapsto> \<lparr>TCP_LoadBalancer = Some \<lparr>TCP_Servers =
          [\<lparr>TCP_Address = [], TCP_Port = []\<rparr>, \<lparr>TCP_Address = [], TCP_Port = ''5432''\<rparr>]\<rparr>\<rparr>]\<rparr>
      \<lparr>ID = 100, Name = ''web'',
       Config = [(''traefik.tcp.services.db.loadbalancer.servers[1].port'', ''5432''),
                 (''traefik.udp.services.dns.loadbalancer.servers[1].port'', ''53'')],
       IPs = [\<lparr>Address = ''10.0.0.5'', AddressType = ''ipv4''\<rparr>]\<rparr> ''pve'') ''db'' 0 =
     Some \<lparr>TCP_Address = [], TCP_Port = []\<rparr>
   \<and> tcp_server_at (buildTCPConfiguration
      \<lparr>TCP_Routers = Map.empty,
       TCP_Services = [''db'' \<mapsto> \<lparr>TCP_LoadBalancer = Some \<lparr>TCP_Servers =
          [\<lparr>TCP_Address = [], TCP_Port = []\<rparr>, \<lparr>TCP_Address = [], TCP_Port = ''5432''\<rparr>]\<rparr>\<rparr>]\<rparr>
      \<lparr>ID = 100, Name = ''web'',
       Config = [(''traefik.tcp.services.db.loadbalancer.servers[1].port'', ''5432''),
                 (''traefik.udp.services.dns.loadbalancer.servers[1].port'', ''53'')],
       IPs = [\<lparr>Address = ''10.0.0.5'', AddressType = ''ipv4''\<rparr>]\<rparr> ''pve'') ''db'' 1 =
     Some \<lparr>TCP_Address = ''10.0.0.5:5432'', TCP_Port = ''5432''\<rparr>
   \<and> udp_server_at (buildUDPConfiguration
      \<lparr>UDP_Routers = Map.empty,
       UDP_Services = [''dns'' \<mapsto> \<lparr>UDP_LoadBalancer = Some \<lparr>UDP_Servers =
          [\<lparr>UDP_Address = [], UDP_Port = []\<rparr>, \<lparr>UDP_Address = [], UDP_Port = ''53''\<rparr>]\<rparr>\<rparr>]\<rparr>
      \<lparr>ID = 100, Name = ''web'',
       Config = [(''traefik.tcp.services.db.loadbalancer.servers[1].port'', ''5432''),
                 (''traefik.udp.services.dns.loadbalancer.servers[1].port'', ''53'')],
       IPs = [\<lparr>Address = ''10.0.0.5'', AddressType = ''ipv4''\<rparr>]\<rparr> ''pve'') ''dns'' 0 =
     Some \<lparr>UDP_Address = [], UDP_Port = []\<rparr>
   \<and> udp_server_at (buildUDPConfiguration
      \<lparr>UDP_Routers = Map.empty,
       UDP_Services = [''dns'' \<mapsto> \<lparr>UDP_LoadBalancer = Some \<lparr>UDP_Servers =
          [\<lparr>UDP_Address = [], UDP_Port = []\<rparr>, \<lparr>UDP_Address = [], UDP_Port = ''53''\<rparr>]\<rparr>\<rparr>]\<rparr>
      \<lparr>ID = 100, Name = ''web'',
       Config = [(''traefik.tcp.services.db.loadbalancer.servers[1].port'', ''5432''),
                 (''traefik.udp.services.dns.loadbalancer.servers[1].port'', ''53'')],
       IPs = [\<lparr>Address = ''10.0.0.5'', AddressType = ''ipv4''\<rparr>]\<rparr> ''pve'') ''dns'' 1 =
     Some \<lparr>UDP_Address = ''10.0.0.5:53'', UDP_Port = ''53''\<rparr>"
  using stream_server_without_port [where tcpConfig = "\<lparr>TCP_Routers = Map.empty,
       TCP_Services = [''db'' \<mapsto> \<lparr>TCP_LoadBalancer = Some \<lparr>TCP_Servers =
          [\<lparr>TCP_Address = [], TCP_Port = []\<rparr>, \<lparr>TCP_Address = [], TCP_Port = ''5432''\<rparr>]\<rparr>\<rparr>]\<rparr>"
     and k = "''db''" and i = 0 and j = 1
     and server = "\<lparr>TCP_Address = [], TCP_Port = []\<rparr>"
     and other = "\<lparr>TCP_Address = [], TCP_Port = ''5432''\<rparr>"
     and udpConfig = "\<lparr>UDP_Routers = Map.empty,
       UDP_Services = [''dns'' \<mapsto> \<lparr>UDP_LoadBalancer = Some \<lparr>UDP_Servers =
          [\<lparr>UDP_Address = [], UDP_Port = []\<rparr>, \<lparr>UDP_Address = [], UDP_Port = ''53''\<rparr>]\<rparr>\<rparr>]\<rparr>"
     and k' = "''dns''" and i' = 0 and j' = 1
     and server' = "\<lparr>UDP_Address = [], UDP_Port = []\<rparr>"
     and other' = "\<lparr>UDP_Address = [], UDP_Port = ''53''\<rparr>"
     and service = "\<lparr>ID = 100, Name = ''web'',
       Config = [(''traefik.tcp.services.db.loadbalancer.servers[1].port'', ''5432''),
                 (''traefik.udp.services.dns.loadbalancer.servers[1].port'', ''53'')],
       IPs = [\<lparr>Address = ''10.0.0.5'', AddressType = ''ipv4''\<rparr>]\<rparr>"
     and nodeName = "''pve''"]
  by (simp add: tcp_server_at_def udp_server_at_def defaultID_def getServiceIP_def
        getDefinedElements_def element_prefix_def HasPrefix_def store_key_def)

section \<open>The assembler and a decode that fails\<close>

lemma services_loop_append:
  "services_loop Decode nodeName (xs @ ys) config =
     services_loop Decode nodeName ys (services_loop Decode nodeName xs config)"
  by (induction xs arbitrary: config) (auto split: prod.splits option.splits)

lemma nodes_loop_append:
  "nodes_loop Decode (xs @ ys) config = nodes_loop Decode ys (nodes_loop Decode xs config)"
  by (induction xs arbitrary: config) auto

text \<open>
  C9. Take any snapshot and any workload in it, and let \<open>config1\<close> be the configuration
  built from everything the assembler has processed before that workload. When the decode
  of the workload's labels fails, none of the three synthesizers runs for it: the assembler
  goes on with the next workload from the configuration as the decoder has left it, undoing
  nothing. So when a failing decode has written nothing, the result is that of the snapshot
  without the workload. When the decode succeeds, \<open>buildHTTPConfiguration\<close>,
  \<open>buildTCPConfiguration\<close> and \<open>buildUDPConfiguration\<close> are applied (in this order in
  \<open>build_all\<close>, each to its own protocol's part of the decoded configuration) and the
  assembler goes on from there.
\<close>

theorem generateConfiguration_decode:
  assumes "config1 =
     services_loop Decode nodeName pre (nodes_loop Decode nodesPre new_Configuration)"
  shows "(\<forall>config2 err. Decode (Config service) config1 = (config2, Some err) \<longrightarrow>
            generateConfiguration Decode
              (nodesPre @ (nodeName, pre @ service # post) # nodesPost) =
            nodes_loop Decode nodesPost (services_loop Decode nodeName post config2))
       \<and> (\<forall>err. Decode (Config service) config1 = (config1, Some err) \<longrightarrow>
            generateConfiguration Decode
              (nodesPre @ (nodeName, pre @ service # post) # nodesPost) =
            generateConfiguration Decode (nodesPre @ (nodeName, pre @ post) # nodesPost))
       \<and> (\<forall>config2. Decode (Config service) config1 = (config2, None) \<longrightarrow>
            generateConfiguration Decode
              (nodesPre @ (nodeName, pre @ service # post) # nodesPost) =
            nodes_loop Decode nodesPost (services_loop Decode nodeName post
              (config2\<lparr>HTTP := buildHTTPConfiguration (HTTP config2) service nodeName,
                       TCP := buildTCPConfiguration (TCP config2) service nodeName,
                       UDP := buildUDPConfiguration (UDP config2) service nodeName\<rparr>)))"
  using assms
  by (simp add: generateConfiguration_def nodes_loop_append services_loop_append
        build_all_def)

theorem generateConfiguration_decode_witness:
  "generateConfiguration
      (\<lambda>lbls config. if map_of lbls ''traefik.http.routers.bad.priority'' = Some ''high''
                      then (config, Some (Error ''cannot parse priority''))
                      else (config, None))
      [(''pve'',
        [\<lparr>ID = 100, Name = ''web'', Config = [(''traefik.enable'', ''true'')], IPs = []\<rparr>,
         \<lparr>ID = 101, Name = ''db'',
          Config = [(''traefik.http.routers.bad.priority'', ''high'')], IPs = []\<rparr>,
         \<lparr>ID = 102, Name = ''app'', Config = [(''traefik.enable'', ''true'')], IPs = []\<rparr>])] =
    generateConfiguration
      (\<lambda>lbls config. if map_of lbls ''traefik.http.routers.bad.priority'' = Some ''high''
                      then (config, Some (Error ''cannot parse priority''))
                      else (config, None))
      [(''pve'',
        [\<lparr>ID = 100, Name = ''web'', Config = [(''traefik.enable'', ''true'')], IPs = []\<rparr>,
         \<lparr>ID = 102, Name = ''app'', Config = [(''traefik.enable'', ''true'')], IPs = []\<rparr>])]
   \<and> generateConfiguration
      (\<lambda>lbls config. if map_of lbls ''traefik.http.routers.bad.priority'' = Some ''high''
                      then (config, Some (Error ''cannot parse priority''))
                      else (config, None))
      [(''pve'',
        [\<lparr>ID = 100, Name = ''web'', Config = [(''traefik.enable'', ''true'')], IPs = []\<rparr>])] =
     \<lparr>HTTP = \<lparr>Routers = [''web-100'' \<mapsto>
                  \<lparr>Service = ''web-100'', Rule = ''Host(`web`)'', Priority = Some 1\<rparr>],
              Services = [''web-100'' \<mapsto>
                  \<lparr>LoadBalancer = Some \<lparr>PassHostHeader = Some True,
                     Servers = [\<lparr>URL = ''http://web.pve:80'', Scheme = [], Port = []\<rparr>]\<rparr>\<rparr>],
              Middlewares = Map.empty\<rparr>,
      TCP = \<lparr>TCP_Routers = Map.empty, TCP_Services = Map.empty\<rparr>,
      UDP = \<lparr>UDP_Routers = Map.empty, UDP_Services = Map.empty\<rparr>\<rparr>"
proof
  show "generateConfiguration
      (\<lambda>lbls config. if map_of lbls ''traefik.http.routers.bad.priority'' = Some ''high''
                      then (config, Some (Error ''cannot parse priority''))
                      else (config, None))
      [(''pve'',
        [\<lparr>ID = 100, Name = ''web'', Config = [(''traefik.enable'', ''true'')], IPs = []\<rparr>,
         \<lparr>ID = 101, Name = ''db'',
          Config = [(''traefik.http.routers.bad.priority'', ''high'')], IPs = []\<rparr>,
         \<lparr>ID = 102, Name = ''app'', Config = [(''traefik.enable'', ''true'')], IPs = []\<rparr>])] =
    generateConfiguration
      (\<lambda>lbls config. if map_of lbls ''traefik.http.routers.bad.priority'' = Some ''high''
                      then (config, Some (Error ''cannot parse priority''))
                      else (config, None))
      [(''pve'',
        [\<lparr>ID = 100, Name = ''web'', Config = [(''traefik.enable'', ''true'')], IPs = []\<rparr>,
         \<lparr>ID = 102, Name = ''app'', Config = [(''traefik.enable'', ''true'')], IPs = []\<rparr>])]"
    using generateConfiguration_decode [OF refl, where nodesPre = "[]" and nodesPost = "[]"
        and nodeName = "''pve''"
        and pre = "[\<lparr>ID = 100, Name = ''web'', Config = [(''traefik.enable'', ''true'')], IPs = []\<rparr>]"
        and post = "[\<lparr>ID = 102, Name = ''app'', Config = [(''traefik.enable'', ''true'')], IPs = []\<rparr>]"
        and service = "\<lparr>ID = 101, Name = ''db'',
          Config = [(''traefik.http.routers.bad.priority'', ''high'')], IPs = []\<rparr>"
        and Decode = "\<lambda>lbls config. if map_of lbls ''traefik.http.routers.bad.priority'' = Some ''high''
                      then (config, Some (Error ''cannot parse priority''))
                      else (config, None)"]
    by (simp add: generateConfiguration_def)
  show "generateConfiguration
      (\<lambda>lbls config. if map_of lbls ''traefik.http.routers.bad.priority'' = Some ''high''
                      then (config, Some (Error ''cannot parse priority''))
                      else (config, None))
      [(''pve'',
        [\<lparr>ID = 100, Name = ''web'', Config = [(''traefik.enable'', ''true'')], IPs = []\<rparr>])] =
     \<lparr>HTTP = \<lparr>Routers = [''web-100'' \<mapsto>
                  \<lparr>Service = ''web-100'', Rule = ''Host(`web`)'', Priority = Some 1\<rparr>],
              Services = [''web-100'' \<mapsto>
                  \<lparr>LoadBalancer = Some \<lparr>PassHostHeader = Some True,
                     Servers = [\<lparr>URL = ''http://web.pve:80'', Scheme = [], Port = []\<rparr>]\<rparr>\<rparr>],
              Middlewares = Map.empty\<rparr>,
      TCP = \<lparr>TCP_Routers = Map.empty, TCP_Services = Map.empty\<rparr>,
      UDP = \<lparr>UDP_Routers = Map.empty, UDP_Services = Map.empty\<rparr>\<rparr>"
    using generateConfiguration_decode [OF refl, where nodesPre = "[]" and nodesPost = "[]"
        and nodeName = "''pve''" and pre = "[]" and post = "[]"
        and service = "\<lparr>ID = 100, Name = ''web'', Config = [(''traefik.enable'', ''true'')], IPs = []\<rparr>"
        and Decode = "\<lambda>lbls config. if map_of lbls ''traefik.http.routers.bad.priority'' = Some ''high''
                      then (config, Some (Error ''cannot parse priority''))
                      else (config, None)"]
    by (simp add: generateConfiguration_def build_all_def
          new_Configuration_def buildHTTPConfiguration_def buildTCPConfiguration_def
          buildUDPConfiguration_def getDefinedElements_def element_prefix_def HasPrefix_def
          http_enrich_router_def http_enrich_service_def http_enrich_server_def
          buildServerURL_def getServiceIP_def defaultID_def decimal_100)
qed

section \<open>Scanning a node\<close>

lemma scan_vms_extends:
  "\<exists>ys. scan_vms client nodeName vms services = services @ ys"
proof (induction vms arbitrary: services)
  case Nil
  then show ?case by simp
next
  case (Cons vm vms)
  show ?case
  proof (cases "VM_Status vm = ''running''")
    case False
    then show ?thesis using Cons.IH [of services] by simp
  next
    case True
    show ?thesis
    proof (cases "GetVMConfig client nodeName (VM_VMID vm)")
      case (Inl err)
      then show ?thesis using True Cons.IH [of services] by simp
    next
      case (Inr configMap)
      obtain s where "scan_vms client nodeName (vm # vms) services =
                        scan_vms client nodeName vms (services @ [s])"
        using True Inr by (simp add: Let_def)
      then show ?thesis using Cons.IH [of "services @ [s]"] by auto
    qed
  qed
qed

lemma scan_cts_extends:
  "\<exists>ys. scan_cts client nodeName cts services = services @ ys"
proof (induction cts arbitrary: services)
  case Nil
  then show ?case by simp
next
  case (Cons ct cts)
  show ?case
  proof (cases "CT_Status ct = ''running''")
    case False
    then show ?thesis using Cons.IH [of services] by simp
  next
    case True
    show ?thesis
    proof (cases "GetContainerConfig client nodeName (CT_VMID ct)")
      case (Inl err)
      then show ?thesis using True Cons.IH [of services] by simp
    next
      case (Inr configMap)
      show ?thesis
      proof (cases "lookup configMap ''traefik.enable'' \<noteq> ''true''")
        case gate: True
        then show ?thesis using True Inr Cons.IH [of services] by simp
      next
        case gate: False
        obtain s where "scan_cts client nodeName (ct # cts) services =
                          scan_cts client nodeName cts (services @ [s])"
          using True Inr gate by (simp add: Let_def)
        then show ?thesis using Cons.IH [of "services @ [s]"] by auto
      qed
    qed
  qed
qed

lemma scan_vms_keeps: "s \<in> set services \<Longrightarrow> s \<in> set (scan_vms client nodeName vms services)"
  using scan_vms_extends [of client nodeName vms services] by auto

lemma scan_cts_keeps: "s \<in> set services \<Longrightarrow> s \<in> set (scan_cts client nodeName cts services)"
  using scan_cts_extends [of client nodeName cts services] by auto

lemma scan_vms_no_addresses:
  assumes "vm \<in> set vms" and "VM_Status vm = ''running''"
    and "GetVMConfig client nodeName (VM_VMID vm) = Inr configMap"
    and "GetVMNetworkInterfaces client nodeName (VM_VMID vm) = Inl err"
  shows "NewService (VM_VMID vm) (VM_Name vm) configMap
           \<in> set (scan_vms client nodeName vms services)"
  using assms(1)
proof (induction vms arbitrary: services)
  case Nil
  then show ?case by simp
next
  case (Cons v vms)
  show ?case
  proof (cases "v = vm")
    case True
    have "scan_vms client nodeName (v # vms) services =
            scan_vms client nodeName vms
              (services @ [NewService (VM_VMID vm) (VM_Name vm) configMap])"
      using True assms(2-4) by (simp add: getIPsOfService_def)
    then show ?thesis by (simp add: scan_vms_keeps)
  next
    case False
    then have "vm \<in> set vms" using Cons.prems by simp
    then have "\<And>acc. NewService (VM_VMID vm) (VM_Name vm) configMap
                 \<in> set (scan_vms client nodeName vms acc)"
      using Cons.IH by blast
    then show ?thesis
      by (simp add: Let_def split: sum.splits)
  qed
qed

lemma scan_cts_no_addresses:
  assumes "ct \<in> set cts" and "CT_Status ct = ''running''"
    and "GetContainerConfig client nodeName (CT_VMID ct) = Inr configMap"
    and "lookup configMap ''traefik.enable'' = ''true''"
    and "GetContainerNetworkInterfaces client nodeName (CT_VMID ct) = Inl err"
  shows "NewService (CT_VMID ct) (CT_Name ct) configMap
           \<in> set (scan_cts client nodeName cts services)"
  using assms(1)
proof (induction cts arbitrary: services)
  case Nil
  then show ?case by simp
next
  case (Cons c cts)
  show ?case
  proof (cases "c = ct")
    case True
    have "scan_cts client nodeName (c # cts) services =
            scan_cts client nodeName cts
              (services @ [NewService (CT_VMID ct) (CT_Name ct) configMap])"
      using True assms(2-5) by (simp add: getIPsOfService_def)
    then show ?thesis by (simp add: scan_cts_keeps)
  next
    case False
    then have "ct \<in> set cts" using Cons.prems by simp
    then have "\<And>acc. NewService (CT_VMID ct) (CT_Name ct) configMap
                 \<in> set (scan_cts client nodeName cts acc)"
      using Cons.IH by blast
    then show ?thesis
      by (simp add: Let_def split: sum.splits)
  qed
qed

lemma scan_cts_gate:
  "s \<in> set (scan_cts client nodeName cts services) \<Longrightarrow>
     s \<in> set services \<or> lookup (Config s) ''traefik.enable'' = ''true''"
proof (induction cts arbitrary: services)
  case Nil
  then show ?case by simp
next
  case (Cons ct cts)
  show ?case
  proof (cases "CT_Status ct = ''running''")
    case False
    then show ?thesis using Cons by simp
  next
    case True
    show ?thesis
    proof (cases "GetContainerConfig client nodeName (CT_VMID ct)")
      case (Inl err)
      then show ?thesis using True Cons by simp
    next
      case (Inr configMap)
      show ?thesis
      proof (cases "lookup configMap ''traefik.enable'' \<noteq> ''true''")
        case gate: True
        then show ?thesis using True Inr Cons by simp
      next
        case gate: False
        obtain s0 where step: "scan_cts client nodeName (ct # cts) services =
                          scan_cts client nodeName cts (services @ [s0])"
          and cfg: "Config s0 = configMap"
          using True Inr gate
          by (cases "getIPsOfService client nodeName (CT_VMID ct) True")
             (simp_all add: Let_def NewService_def)
        have "s \<in> set (services @ [s0]) \<or> lookup (Config s) ''traefik.enable'' = ''true''"
          using Cons.IH [of "services @ [s0]"] Cons.prems step by simp
        then show ?thesis using cfg gate by auto
      qed
    qed
  qed
qed

subsection \<open>A workload whose addresses cannot be fetched\<close>

text \<open>
  C10. Let the scan of a node succeed. A running virtual machine or container whose labels
  were fetched and map \<open>traefik.enable\<close> to \<open>true\<close>, and whose network-interface call
  fails, is in the returned service list all the same, as \<open>NewService\<close> has made it: with
  no reported address. \<open>getServiceIP\<close> therefore gives \<open><workload-name>.<node-name>\<close> for
  it, the host of every server address built for that workload.
\<close>

theorem scanServices_address_failure:
  assumes "scanServices client nodeName = Inr services"
  shows "(GetVirtualMachines client nodeName = Inr vms \<and> vm \<in> set vms
          \<and> VM_Status vm = ''running''
          \<and> GetVMConfig client nodeName (VM_VMID vm) = Inr vmLabels
          \<and> lookup vmLabels ''traefik.enable'' = ''true''
          \<and> GetVMNetworkInterfaces client nodeName (VM_VMID vm) = Inl err
          \<longrightarrow> NewService (VM_VMID vm) (VM_Name vm) vmLabels \<in> set services
              \<and> IPs (NewService (VM_VMID vm) (VM_Name vm) vmLabels) = []
              \<and> getServiceIP (NewService (VM_VMID vm) (VM_Name vm) vmLabels) nodeName =
                  VM_Name vm @ ''.'' @ nodeName)
       \<and> (GetContainers client nodeName = Inr cts \<and> ct \<in> set cts
          \<and> CT_Status ct = ''running''
          \<and> GetContainerConfig client nodeName (CT_VMID ct) = Inr ctLabels
          \<and> lookup ctLabels ''traefik.enable'' = ''true''
          \<and> GetContainerNetworkInterfaces client nodeName (CT_VMID ct) = Inl err'
          \<longrightarrow> NewService (CT_VMID ct) (CT_Name ct) ctLabels \<in> set services
              \<and> IPs (NewService (CT_VMID ct) (CT_Name ct) ctLabels) = []
              \<and> getServiceIP (NewService (CT_VMID ct) (CT_Name ct) ctLabels) nodeName =
                  CT_Name ct @ ''.'' @ nodeName)"
proof (intro conjI impI)
  assume a: "GetVirtualMachines client nodeName = Inr vms \<and> vm \<in> set vms
          \<and> VM_Status vm = ''running''
          \<and> GetVMConfig client nodeName (VM_VMID vm) = Inr vmLabels
          \<and> lookup vmLabels ''traefik.enable'' = ''true''
          \<and> GetVMNetworkInterfaces client nodeName (VM_VMID vm) = Inl err"
  then obtain cts' where "services =
      scan_cts client nodeName cts' (scan_vms client nodeName vms [])"
    using assms by (auto simp: scanServices_def Let_def split: sum.splits)
  moreover have "NewService (VM_VMID vm) (VM_Name vm) vmLabels
                   \<in> set (scan_vms client nodeName vms [])"
    using a scan_vms_no_addresses by blast
  ultimately show "NewService (VM_VMID vm) (VM_Name vm) vmLabels \<in> set services"
    by (simp add: scan_cts_keeps)
next
  assume a: "GetContainers client nodeName = Inr cts \<and> ct \<in> set cts
          \<and> CT_Status ct = ''running''
          \<and> GetContainerConfig client nodeName (CT_VMID ct) = Inr ctLabels
          \<and> lookup ctLabels ''traefik.enable'' = ''true''
          \<and> GetContainerNetworkInterfaces client nodeName (CT_VMID ct) = Inl err'"
  then obtain acc where "services = scan_cts client nodeName cts acc"
    using assms by (auto simp: scanServices_def Let_def split: sum.splits)
  then show "NewService (CT_VMID ct) (CT_Name ct) ctLabels \<in> set services"
    using a scan_cts_no_addresses by blast
qed (simp_all add: NewService_def getServiceIP_def)

theorem scanServices_address_failure_witness:
  "scanServices
     \<lparr>GetVirtualMachines = \<lambda>node. Inr [\<lparr>VM_VMID = 100, VM_Name = ''web'', VM_Status = ''running''\<rparr>],
      GetVMConfig = \<lambda>node vmid. Inr [(''traefik.enable'', ''true'')],
      GetVMNetworkInterfaces = \<lambda>node vmid. Inl (Error ''guest agent is not running''),
      GetContainers = \<lambda>node. Inr [\<lparr>CT_VMID = 200, CT_Name = ''db'', CT_Status = ''running''\<rparr>],
      GetContainerConfig = \<lambda>node vmid. Inr [(''traefik.enable'', ''true'')],
      GetContainerNetworkInterfaces = \<lambda>node vmid. Inl (Error ''timeout'')\<rparr> ''pve'' =
     Inr [\<lparr>ID = 100, Name = ''web'', Config = [(''traefik.enable'', ''true'')], IPs = []\<rparr>,
          \<lparr>ID = 200, Name = ''db'', Config = [(''traefik.enable'', ''true'')], IPs = []\<rparr>]
   \<and> getServiceIP (NewService 100 ''web'' [(''traefik.enable'', ''true'')]) ''pve'' = ''web.pve''
   \<and> getServiceIP (NewService 200 ''db'' [(''traefik.enable'', ''true'')]) ''pve'' = ''db.pve''"
proof -
  let ?client = "\<lparr>GetVirtualMachines = \<lambda>node. Inr [\<lparr>VM_VMID = 100, VM_Name = ''web'', VM_Status = ''running''\<rparr>],
      GetVMConfig = \<lambda>node vmid. Inr [(''traefik.enable'', ''true'')],
      GetVMNetworkInterfaces = \<lambda>node vmid. Inl (Error ''guest agent is not running''),
      GetContainers = \<lambda>node. Inr [\<lparr>CT_VMID = 200, CT_Name = ''db'', CT_Status = ''running''\<rparr>],
      GetContainerConfig = \<lambda>node vmid. Inr [(''traefik.enable'', ''true'')],
      GetContainerNetworkInterfaces = \<lambda>node vmid. Inl (Error ''timeout'')\<rparr>"
  have scan: "scanServices ?client ''pve'' =
     Inr [\<lparr>ID = 100, Name = ''web'', Config = [(''traefik.enable'', ''true'')], IPs = []\<rparr>,
          \<lparr>ID = 200, Name = ''db'', Config = [(''traefik.enable'', ''true'')], IPs = []\<rparr>]"
    by (simp add: scanServices_def getIPsOfService_def NewService_def lookup_def)
  show ?thesis
    using scan scanServices_address_failure [OF scan,
        where vms = "[\<lparr>VM_VMID = 100, VM_Name = ''web'', VM_Status = ''running''\<rparr>]"
        and vm = "\<lparr>VM_VMID = 100, VM_Name = ''web'', VM_Status = ''running''\<rparr>"
        and vmLabels = "[(''traefik.enable'', ''true'')]"
        and err = "Error ''guest agent is not running''"
        and cts = "[\<lparr>CT_VMID = 200, CT_Name = ''db'', CT_Status = ''running''\<rparr>]"
        and ct = "\<lparr>CT_VMID = 200, CT_Name = ''db'', CT_Status = ''running''\<rparr>"
        and ctLabels = "[(''traefik.enable'', ''true'')]"
        and err' = "Error ''timeout''"]
    by (simp add: lookup_def)
qed

subsection \<open>The enable gate\<close>

text \<open>
  C6. A workload whose labels do not map \<open>traefik.enable\<close> to \<open>true\<close> is to be left out of
  the service list. The loop over the containers does so (\<open>scan_cts_gate\<close>: every service
  it adds passes the gate). The loop over the virtual machines does not: on a node with one
  running virtual machine and one running container, both labelled
  \<open>traefik.enable=false\<close>, \<open>scanServices\<close> returns the virtual machine and not the
  container.
\<close>

theorem scanServices_vm_gate_not_applied:
  "scanServices
     \<lparr>GetVirtualMachines = \<lambda>node. Inr [\<lparr>VM_VMID = 100, VM_Name = ''web'', VM_Status = ''running''\<rparr>],
      GetVMConfig = \<lambda>node vmid. Inr [(''traefik.enable'', ''false'')],
      GetVMNetworkInterfaces = \<lambda>node vmid. Inr [\<lparr>Address = ''10.0.0.5'', AddressType = ''ipv4''\<rparr>],
      GetContainers = \<lambda>node. Inr [\<lparr>CT_VMID = 200, CT_Name = ''db'', CT_Status = ''running''\<rparr>],
      GetContainerConfig = \<lambda>node vmid. Inr [(''traefik.enable'', ''false'')],
      GetContainerNetworkInterfaces =
        \<lambda>node vmid. Inr [\<lparr>Address = ''10.0.0.6'', AddressType = ''inet''\<rparr>]\<rparr> ''pve'' =
     Inr [\<lparr>ID = 100, Name = ''web'', Config = [(''traefik.enable'', ''false'')],
           IPs = [\<lparr>Address = ''10.0.0.5'', AddressType = ''ipv4''\<rparr>]\<rparr>]"
  by (simp add: scanServices_def getIPsOfService_def NewService_def lookup_def)

end
